theory Spec2Isabelle
  imports Complex_Main "HOL-Library.Word" "HOL-Library.Sublist"
begin

section \<open>Values of the firmware\<close>

text \<open>
  The firmware of \<^verbatim>\<open>XiaoWeather/src/main.cpp\<close> runs on a 32-bit target, where
  \<^verbatim>\<open>unsigned long\<close> (the type of \<^verbatim>\<open>millis()\<close> and of the four timing
  variables) is a 32-bit unsigned integer: subtraction wraps and comparison is unsigned.
\<close>

type_synonym ulong = "32 word"

text \<open>
  A floating-point value is not-a-number, an infinity or a finite value, held as the
  real number it stands for. The two zeros are not told apart.
\<close>

datatype cfloat = NaN | PInf | NInf | Fin real

fun isnan :: "cfloat \<Rightarrow> bool" where
  "isnan NaN = True"
| "isnan x = False"

subsection \<open>Rounding to single precision\<close>

text \<open>
  The exponent of a positive real: \<open>binade n x = e\<close> with \<open>2 ^ e \<le> x < 2 ^ (e + 1)\<close>,
  found by halving or doubling at most \<open>n\<close> times.
\<close>

fun binade :: "nat \<Rightarrow> real \<Rightarrow> int" where
  "binade 0 x = 0"
| "binade (Suc n) x =
     (if 2 \<le> x then binade n (x / 2) + 1
      else if x < 1 then binade n (x * 2) - 1
      else 0)"

definition pow2 :: "int \<Rightarrow> real" where
  "pow2 e = (if 0 \<le> e then 2 ^ nat e else 1 / 2 ^ nat (- e))"

text \<open>To the nearest integer, halfway cases to the even one.\<close>

definition round_half_even :: "real \<Rightarrow> int" where
  "round_half_even y =
     (if y - of_int \<lfloor>y\<rfloor> < 1 / 2 then \<lfloor>y\<rfloor>
      else if 1 / 2 < y - of_int \<lfloor>y\<rfloor> then \<lfloor>y\<rfloor> + 1
      else if even \<lfloor>y\<rfloor> then \<lfloor>y\<rfloor> else \<lfloor>y\<rfloor> + 1)"

text \<open>
  The binary32 value nearest to a real, as the arithmetic of a \<^verbatim>\<open>float\<close> rounds
  its results: 24 significant bits, exponents from -126 (below which the spacing stays
  \<open>2 ^ -149\<close>) to 127, halfway cases to the even significand, and an infinity once the
  rounded magnitude reaches \<open>2 ^ 128\<close>.
\<close>

definition to_binary32 :: "real \<Rightarrow> cfloat" where
  "to_binary32 y =
     (let e = max (- 126) (binade 300 \<bar>y\<bar>);
          q = pow2 (e - 23);
          r = of_int (round_half_even (y / q)) * q
      in if 2 ^ 128 \<le> \<bar>r\<bar> then (if 0 < y then PInf else NInf) else Fin r)"

text \<open>
  \<^verbatim>\<open>x * 10\<close> on a \<^verbatim>\<open>float\<close>: the product with a literal, rounded to
  binary32. NaN propagates; an infinity keeps or changes its sign with the literal's.
\<close>

fun fmul :: "cfloat \<Rightarrow> real \<Rightarrow> cfloat" where
  "fmul NaN c = NaN"
| "fmul PInf c = (if 0 < c then PInf else if c < 0 then NInf else NaN)"
| "fmul NInf c = (if 0 < c then NInf else if c < 0 then PInf else NaN)"
| "fmul (Fin q) c = to_binary32 (q * c)"

text \<open>
  Division by a non-zero literal (\<^verbatim>\<open>/ 100.0F\<close>, \<^verbatim>\<open>/ 10.0\<close>). The quotient is
  held as the exact value: the tenths \<^verbatim>\<open>round(x * 10) / 10.0\<close> stands for are the
  decimal the JSON text shows.
\<close>

fun fdiv :: "cfloat \<Rightarrow> real \<Rightarrow> cfloat" where
  "fdiv NaN c = NaN"
| "fdiv PInf c = (if 0 \<le> c then PInf else NInf)"
| "fdiv NInf c = (if 0 \<le> c then NInf else PInf)"
| "fdiv (Fin q) c = Fin (q / c)"

text \<open>
  \<^verbatim>\<open>round\<close> of the C library: to the nearest integer, halfway cases away from
  zero; NaN and the infinities stay what they are.
\<close>

definition round_half_away :: "real \<Rightarrow> int" where
  "round_half_away q = (if 0 \<le> q then \<lfloor>q + 1 / 2\<rfloor> else \<lceil>q - 1 / 2\<rceil>)"

fun fround :: "cfloat \<Rightarrow> cfloat" where
  "fround (Fin q) = Fin (of_int (round_half_away q))"
| "fround x = x"

text \<open>A JSON document as ArduinoJson holds it: members of an object in insertion order.\<close>

datatype json =
    JStr string
  | JNum cfloat
  | JArr "json list"
  | JObj "(string \<times> json) list"

fun members :: "json \<Rightarrow> (string \<times> json) list" where
  "members (JObj kvs) = kvs"
| "members j = []"

definition member :: "json \<Rightarrow> string \<Rightarrow> json option" where
  "member j k = map_of (members j) k"

text \<open>
  What \<^verbatim>\<open>mqttClient.publish\<close> is given as payload: a literal C string, or the
  text \<^verbatim>\<open>serializeJson\<close> wrote for a document.
\<close>

datatype payload = Raw string | Doc json

subsection \<open>The text of a document\<close>

text \<open>
  The compact text the JSON library writes for a document. The writer is not part of
  \<^verbatim>\<open>main.cpp\<close>; the model needs it for one thing only, the length of a packet.
  Strings are quoted, with the quote, the backslash and five control characters
  escaped; members and elements are separated by commas, with no white space; a number
  is written with up to nine decimals and no trailing zeros, and as \<^verbatim>\<open>null\<close> when
  it is NaN or an infinity. (The exponent notation of very large and very small numbers
  is left out.)
\<close>

definition escape :: "char \<Rightarrow> string" where
  "escape c =
     (if c = CHR 0x22 then [CHR 0x5C, CHR 0x22]
      else if c = CHR 0x5C then [CHR 0x5C, CHR 0x5C]
      else if c = CHR 0x08 then [CHR 0x5C, CHR ''b'']
      else if c = CHR 0x0C then [CHR 0x5C, CHR ''f'']
      else if c = CHR 0x0A then [CHR 0x5C, CHR ''n'']
      else if c = CHR 0x0D then [CHR 0x5C, CHR ''r'']
      else if c = CHR 0x09 then [CHR 0x5C, CHR ''t'']
      else [c])"

definition quoted :: "string \<Rightarrow> string" where
  "quoted txt = CHR 0x22 # concat (map escape txt) @ [CHR 0x22]"

fun digits :: "nat \<Rightarrow> nat \<Rightarrow> string" where
  "digits 0 n = []"
| "digits (Suc k) n = digits k (n div 10) @ [''0123456789'' ! (n mod 10)]"

text \<open>A natural number in decimal: the digits after the leading zeros, at least one.\<close>

definition decimal :: "nat \<Rightarrow> string" where
  "decimal n =
     (case dropWhile (\<lambda>c. c = CHR ''0'') (digits 40 n) of
        [] \<Rightarrow> ''0''
      | ds \<Rightarrow> ds)"

definition fraction :: "nat \<Rightarrow> string" where
  "fraction f = rev (dropWhile (\<lambda>c. c = CHR ''0'') (rev (digits 9 f)))"

text \<open>A number of billionths: the integral part, and the decimals when there are any.\<close>

definition unsigned_text :: "nat \<Rightarrow> string" where
  "unsigned_text m =
     decimal (m div 10 ^ 9)
     @ (if fraction (m mod 10 ^ 9) = [] then [] else CHR ''.'' # fraction (m mod 10 ^ 9))"

fun number_text :: "cfloat \<Rightarrow> string" where
  "number_text (Fin q) =
     (if q < 0 \<and> round_half_away (\<bar>q\<bar> * 10 ^ 9) \<noteq> 0 then ''-'' else [])
     @ unsigned_text (nat (round_half_away (\<bar>q\<bar> * 10 ^ 9)))"
| "number_text x = ''null''"

fun commas :: "string list \<Rightarrow> string" where
  "commas [] = []"
| "commas [x] = x"
| "commas (x # y # ys) = x @ '','' @ commas (y # ys)"

fun serializeJson :: "json \<Rightarrow> string" where
  "serializeJson (JStr txt) = quoted txt"
| "serializeJson (JNum x) = number_text x"
| "serializeJson (JArr js) = ''['' @ commas (map serializeJson js) @ '']''"
| "serializeJson (JObj kvs) =
     ''{'' @ commas (map (\<lambda>kv. quoted (fst kv) @ '':'' @ serializeJson (snd kv)) kvs) @ ''}''"

fun payload_text :: "payload \<Rightarrow> string" where
  "payload_text (Raw txt) = txt"
| "payload_text (Doc j) = serializeJson j"

text \<open>The last-will of a connect call: topic, QoS, retain flag, message.\<close>

type_synonym will = "string \<times> nat \<times> bool \<times> string"

text \<open>Calls on the display between \<^verbatim>\<open>clearDisplay\<close> and \<^verbatim>\<open>display\<close>.\<close>

datatype draw =
    Splash
  | SetCursor nat nat
  | SetTextSize nat
  | Println string
  | PrintlnEmpty
  | PrintNum cfloat nat
  | PrintlnIP

text \<open>
  The calls the firmware makes on its collaborators, in program order. The serial log
  and the pin set-up are left out.
\<close>

datatype event =
    ClockRead ulong
  | Delay nat
  | Frame "draw list"
  | WifiDisconnect
  | WifiBegin string string
  | SetServer string nat
  | SetBufferSize nat
  | Connect string string string "will option" bool
  | Disconnect
  | Pump
  | Publish string payload bool
  | SetSampling
  | Restart

section \<open>Configuration and constants\<close>

definition WIFI_SSID :: string where "WIFI_SSID = ''YushNet Lux 2.4G''"
definition WIFI_PASSWORD :: string where "WIFI_PASSWORD = ''1337x@Ayush6901''"
definition MQTT_SERVER :: string where "MQTT_SERVER = ''192.168.8.195''"
definition MQTT_PORT :: nat where "MQTT_PORT = 1883"
definition MQTT_USER :: string where "MQTT_USER = ''ayush.chinmay''"
definition MQTT_PASSWORD :: string where "MQTT_PASSWORD = ''1337x@#Ayush6901''"
definition DEVICE_NAME :: string where "DEVICE_NAME = ''pc_xiaoc3_weather''"
definition DEVICE_FRIENDLY_NAME :: string where
  "DEVICE_FRIENDLY_NAME = ''Desktop Station Weather''"

definition MQTT_DISCOVERY_PREFIX :: string where "MQTT_DISCOVERY_PREFIX = ''homeassistant''"
definition MQTT_STATE_TOPIC :: string where "MQTT_STATE_TOPIC = ''pc_xiaoc3_weather/state''"
definition MQTT_AVAILABILITY_TOPIC :: string where
  "MQTT_AVAILABILITY_TOPIC = ''pc_xiaoc3_weather/availability''"

definition oledDelay :: ulong where "oledDelay = 2000"
definition bmeDelay :: ulong where "bmeDelay = 41"
definition mqttDelay :: ulong where "mqttDelay = 10000"
definition wifiReconnectDelay :: ulong where "wifiReconnectDelay = 30000"

section \<open>State\<close>

text \<open>
  The global variables of the firmware, and what the model keeps of its collaborators:
  \<open>session\<close> is the MQTT client's own connection state (set by a successful
  \<^verbatim>\<open>connect\<close>, cleared when the client finds the transport gone or is told to
  disconnect), \<open>bufferSize\<close> the size of the client's packet buffer, \<open>fb\<close> the
  display calls since the last \<^verbatim>\<open>clearDisplay\<close>, \<open>trace\<close> the calls made so far,
  and \<open>wire\<close> the publishes the client has written to the broker: topic, payload and
  retain flag.
\<close>

record node =
  humid :: cfloat
  tempC :: cfloat
  pressure :: cfloat
  oledTime :: ulong
  bmeTime :: ulong
  mqttTime :: ulong
  wifiReconnectTime :: ulong
  mqttDiscoverySent :: bool
  mqttResetRequested :: bool
  session :: bool
  fb :: "draw list"
  trace :: "event list"
  bufferSize :: nat
  wire :: "(string \<times> payload \<times> bool) list"

text \<open>The state at power-on. 256 bytes is the buffer the client starts with.\<close>

definition power_on :: node where
  "power_on = \<lparr> humid = Fin 0, tempC = Fin 0, pressure = Fin 0,
     oledTime = 0, bmeTime = 0, mqttTime = 0, wifiReconnectTime = 0,
     mqttDiscoverySent = False, mqttResetRequested = False,
     session = False, fb = [Splash], trace = [], bufferSize = 256, wire = [] \<rparr>"

definition emit :: "event \<Rightarrow> node \<Rightarrow> node" where
  "emit ev s = s\<lparr>trace := trace s @ [ev]\<rparr>"

definition delay :: "nat \<Rightarrow> node \<Rightarrow> node" where
  "delay ms s = emit (Delay ms) s"

definition setBufferSize :: "nat \<Rightarrow> node \<Rightarrow> node" where
  "setBufferSize n s = emit (SetBufferSize n) (s\<lparr>bufferSize := n\<rparr>)"

text \<open>
  \<^verbatim>\<open>mqttClient.publish(topic, payload, retained)\<close>. The call is recorded in the
  trace. The client writes the packet only when it holds a session and the packet, a
  header of at most five bytes, two bytes of topic length, the topic and the payload,
  fits its buffer (both lengths are measured up to the size of the buffer); otherwise
  it returns false and nothing is sent. The firmware never looks at the result. (The
  transport is taken to be as the last query of the client found it.)
\<close>

definition packet_size :: "nat \<Rightarrow> string \<Rightarrow> payload \<Rightarrow> nat" where
  "packet_size cap topic p =
     5 + 2 + min (length topic) cap + min (length (payload_text p)) cap"

definition publish :: "string \<Rightarrow> payload \<Rightarrow> bool \<Rightarrow> node \<Rightarrow> node" where
  "publish topic p retained s =
     (let s1 = emit (Publish topic p retained) s in
      if session s1 \<and> \<not> bufferSize s1 < packet_size (bufferSize s1) topic p
      then s1\<lparr>wire := wire s1 @ [(topic, p, retained)]\<rparr>
      else s1)"

definition clearDisplay :: "node \<Rightarrow> node" where
  "clearDisplay s = s\<lparr>fb := []\<rparr>"

definition paint :: "draw list \<Rightarrow> node \<Rightarrow> node" where
  "paint ds s = s\<lparr>fb := fb s @ ds\<rparr>"

definition display :: "node \<Rightarrow> node" where
  "display s = emit (Frame (fb s)) s"

text \<open>
  \<^verbatim>\<open>mqttClient.connected()\<close>: true when the client holds a session and the
  transport is still open (\<open>alive\<close>, from the environment); a session whose transport is
  gone is dropped by the query itself.
\<close>

definition connected :: "bool \<Rightarrow> node \<Rightarrow> bool \<times> node" where
  "connected alive s = (session s \<and> alive, s\<lparr>session := session s \<and> alive\<rparr>)"

text \<open>
  What one pass of \<^verbatim>\<open>loop()\<close> reads from its environment, call by call: the link
  status in \<^verbatim>\<open>checkWiFi\<close>, in \<^verbatim>\<open>loop\<close> and in \<^verbatim>\<open>mqttReconnect\<close>;
  whether the transport is open at each query of the client; the broker's answer to a
  connect; the eight readings of \<^verbatim>\<open>millis()\<close>; the three channels of the sensor
  (pressure in Pa).
\<close>

record tick =
  wifi_check :: bool
  wifi_loop :: bool
  wifi_reconnect :: bool
  alive_loop :: bool
  alive_reconnect :: bool
  alive_pump :: bool
  alive_publish :: bool
  accept :: bool
  ms_wifi :: ulong
  ms_wifi_set :: ulong
  ms_bme :: ulong
  ms_bme_set :: ulong
  ms_oled :: ulong
  ms_oled_set :: ulong
  ms_mqtt :: ulong
  ms_mqtt_set :: ulong
  bme_humidity :: cfloat
  bme_temperature :: cfloat
  bme_pressure :: cfloat

section \<open>WiFi\<close>

definition checkWiFi :: "tick \<Rightarrow> node \<Rightarrow> node" where
  "checkWiFi e s =
     (if \<not> wifi_check e then
        (let s1 = emit (ClockRead (ms_wifi e)) s in
         if ms_wifi e - wifiReconnectTime s1 \<ge> wifiReconnectDelay then
           (let s2 = emit (ClockRead (ms_wifi_set e)) s1;
                s3 = s2\<lparr>wifiReconnectTime := ms_wifi_set e\<rparr>;
                s4 = emit WifiDisconnect s3
            in emit (WifiBegin WIFI_SSID WIFI_PASSWORD) s4)
         else s1)
      else s)"

section \<open>MQTT\<close>

text \<open>\<^verbatim>\<open>snprintf(topic, sizeof(topic), "%s/sensor/%s/<key>/config", ...)\<close> into 128 bytes.\<close>

definition config_topic :: "string \<Rightarrow> string \<Rightarrow> string \<Rightarrow> string" where
  "config_topic pre dev key = take 127 (pre @ ''/sensor/'' @ dev @ ''/'' @ key @ ''/config'')"

definition resetMQTT :: "node \<Rightarrow> node" where
  "resetMQTT s =
     (let s1 = publish (config_topic MQTT_DISCOVERY_PREFIX DEVICE_NAME ''temperature'') (Raw []) True s;
          s2 = publish (config_topic MQTT_DISCOVERY_PREFIX DEVICE_NAME ''humidity'') (Raw []) True s1;
          s3 = publish (config_topic MQTT_DISCOVERY_PREFIX DEVICE_NAME ''pressure'') (Raw []) True s2;
          s4 = publish (config_topic MQTT_DISCOVERY_PREFIX DEVICE_NAME ''temperature_f'') (Raw []) True s3;
          s5 = publish (config_topic MQTT_DISCOVERY_PREFIX DEVICE_NAME ''pressure_bar'') (Raw []) True s4;
          s6 = publish (config_topic MQTT_DISCOVERY_PREFIX DEVICE_NAME ''altitude'') (Raw []) True s5;
          s7 = publish MQTT_STATE_TOPIC (Raw []) True s6;
          s8 = publish MQTT_AVAILABILITY_TOPIC (Raw []) True s7
      in delay 500 s8)"

text \<open>
  The document each of the three blocks of \<^verbatim>\<open>publishDiscovery\<close> builds. The blocks
  differ in five strings only; \<open>dev\<close> and \<open>friendly\<close> are the two device identifiers the
  blocks read (\<^verbatim>\<open>DEVICE_NAME\<close>, \<^verbatim>\<open>DEVICE_FRIENDLY_NAME\<close>).
\<close>

definition discovery_doc ::
  "string \<Rightarrow> string \<Rightarrow> string \<Rightarrow> string \<Rightarrow> string \<Rightarrow> string \<Rightarrow> string \<Rightarrow> json" where
  "discovery_doc dev friendly name uid template unit cls =
     JObj [
       (''device'', JObj [
          (''identifiers'', JArr [JStr dev]),
          (''name'', JStr friendly),
          (''model'', JStr ''XIAO ESP32-C3 + BME280''),
          (''manufacturer'', JStr ''Seeed Studio'')]),
       (''name'', JStr name),
       (''unique_id'', JStr uid),
       (''state_topic'', JStr MQTT_STATE_TOPIC),
       (''availability_topic'', JStr MQTT_AVAILABILITY_TOPIC),
       (''payload_available'', JStr ''online''),
       (''payload_not_available'', JStr ''offline''),
       (''value_template'', JStr template),
       (''unit_of_measurement'', JStr unit),
       (''device_class'', JStr cls),
       (''state_class'', JStr ''measurement'')]"

text \<open>The degree sign of \<^verbatim>\<open>"\<degree>C"\<close> is two bytes in the UTF-8 source.\<close>

definition degree_C :: string where
  "degree_C = [CHR 0xC2, CHR 0xB0, CHR ''C'']"

definition temperature_doc :: "string \<Rightarrow> string \<Rightarrow> json" where
  "temperature_doc dev friendly =
     discovery_doc dev friendly ''Temperature'' ''xiao_weather_temperature''
       ''{{ value_json.temperature }}'' degree_C ''temperature''"

definition humidity_doc :: "string \<Rightarrow> string \<Rightarrow> json" where
  "humidity_doc dev friendly =
     discovery_doc dev friendly ''Humidity'' ''xiao_weather_humidity''
       ''{{ value_json.humidity }}'' ''%'' ''humidity''"

definition pressure_doc :: "string \<Rightarrow> string \<Rightarrow> json" where
  "pressure_doc dev friendly =
     discovery_doc dev friendly ''Pressure'' ''xiao_weather_pressure''
       ''{{ value_json.pressure }}'' ''hPa'' ''pressure''"

definition publishDiscovery :: "node \<Rightarrow> node" where
  "publishDiscovery s =
     (if mqttDiscoverySent s then s
      else
        (let s1 = publish (config_topic MQTT_DISCOVERY_PREFIX DEVICE_NAME ''temperature'')
                    (Doc (temperature_doc DEVICE_NAME DEVICE_FRIENDLY_NAME)) True s;
             s2 = publish (config_topic MQTT_DISCOVERY_PREFIX DEVICE_NAME ''humidity'')
                    (Doc (humidity_doc DEVICE_NAME DEVICE_FRIENDLY_NAME)) True s1;
             s3 = publish (config_topic MQTT_DISCOVERY_PREFIX DEVICE_NAME ''pressure'')
                    (Doc (pressure_doc DEVICE_NAME DEVICE_FRIENDLY_NAME)) True s2
         in s3\<lparr>mqttDiscoverySent := True\<rparr>))"

text \<open>
  \<^verbatim>\<open>mqttClient.connect\<close> with the last-will of the availability topic. The broker's
  answer comes from the environment; acceptance opens the session.
\<close>

definition mqttReconnect :: "tick \<Rightarrow> node \<Rightarrow> node" where
  "mqttReconnect e s =
     (case connected (alive_reconnect e) s of (c, s1) \<Rightarrow>
        if c then s1
        else if \<not> wifi_reconnect e then s1
        else
          (let s2 = emit (Connect DEVICE_NAME MQTT_USER MQTT_PASSWORD
                        (Some (MQTT_AVAILABILITY_TOPIC, 0, True, ''offline'')) (accept e)) s1
           in if accept e then
                (let s3 = s2\<lparr>session := True\<rparr>;
                     s4 = publish MQTT_AVAILABILITY_TOPIC (Raw ''online'') True s3;
                     s5 = s4\<lparr>mqttDiscoverySent := False\<rparr>
                 in publishDiscovery s5)
              else s2))"

definition state_doc :: "node \<Rightarrow> json" where
  "state_doc s =
     JObj [
       (''temperature'', JNum (fdiv (fround (fmul (tempC s) 10)) 10)),
       (''humidity'', JNum (fdiv (fround (fmul (humid s) 10)) 10)),
       (''pressure'', JNum (fdiv (fround (fmul (pressure s) 10)) 10))]"

definition publishSensorData :: "tick \<Rightarrow> node \<Rightarrow> node" where
  "publishSensorData e s =
     (case connected (alive_publish e) s of (c, s1) \<Rightarrow>
        if \<not> c then s1
        else publish MQTT_STATE_TOPIC (Doc (state_doc s1)) True s1)"

section \<open>Display and sensor\<close>

definition printBME :: "node \<Rightarrow> node" where
  "printBME s =
     (let s1 = paint [SetCursor 0 0] (clearDisplay s) in
      if isnan (humid s1) \<or> isnan (tempC s1) then
        delay 1000 (display (paint [SetTextSize 1, Println ''BME Error''] s1))
      else
        display (paint
          [SetTextSize 1, Println ''Humid:'',
           SetTextSize 2, PrintNum (humid s1) 1, Println ''%'',
           PrintlnEmpty,
           SetTextSize 1, Println ''Temp:'',
           SetTextSize 2, PrintNum (tempC s1) 1, Println ''C'',
           PrintlnEmpty,
           SetTextSize 1, Println ''Press:'',
           SetTextSize 2, PrintNum (pressure s1) 0,
           SetTextSize 1, Println ''hPa''] s1))"

definition readBME :: "tick \<Rightarrow> node \<Rightarrow> node" where
  "readBME e s =
     s\<lparr>humid := bme_humidity e,
       tempC := bme_temperature e,
       pressure := fdiv (bme_pressure e) 100\<rparr>"

section \<open>The loop\<close>

text \<open>The five stages of \<^verbatim>\<open>loop()\<close>, in the order of the source.\<close>

definition loop_session :: "tick \<Rightarrow> node \<Rightarrow> node" where
  "loop_session e s =
     (if wifi_loop e then
        (case connected (alive_loop e) s of (c, s1) \<Rightarrow>
           (let s2 = (if \<not> c then mqttReconnect e s1 else s1);
                s3 = emit Pump s2
            in s3\<lparr>session := session s3 \<and> alive_pump e\<rparr>))
      else s)"

definition loop_bme :: "tick \<Rightarrow> node \<Rightarrow> node" where
  "loop_bme e s =
     (let s1 = emit (ClockRead (ms_bme e)) s in
      if ms_bme e - bmeTime s1 \<ge> bmeDelay \<or> bmeTime s1 = 0 then
        readBME e ((emit (ClockRead (ms_bme_set e)) s1)\<lparr>bmeTime := ms_bme_set e\<rparr>)
      else s1)"

definition loop_oled :: "tick \<Rightarrow> node \<Rightarrow> node" where
  "loop_oled e s =
     (let s1 = emit (ClockRead (ms_oled e)) s in
      if ms_oled e - oledTime s1 \<ge> oledDelay \<or> oledTime s1 = 0 then
        printBME ((emit (ClockRead (ms_oled_set e)) s1)\<lparr>oledTime := ms_oled_set e\<rparr>)
      else s1)"

definition loop_mqtt :: "tick \<Rightarrow> node \<Rightarrow> node" where
  "loop_mqtt e s =
     (let s1 = emit (ClockRead (ms_mqtt e)) s in
      if ms_mqtt e - mqttTime s1 \<ge> mqttDelay \<or> mqttTime s1 = 0 then
        publishSensorData e ((emit (ClockRead (ms_mqtt_set e)) s1)\<lparr>mqttTime := ms_mqtt_set e\<rparr>)
      else s1)"

definition loop :: "tick \<Rightarrow> node \<Rightarrow> node" where
  "loop e s = loop_mqtt e (loop_oled e (loop_bme e (loop_session e (checkWiFi e s))))"

text \<open>The runtime: one pass of the loop for each entry of the environment's list.\<close>

fun run :: "tick list \<Rightarrow> node \<Rightarrow> node" where
  "run [] s = s"
| "run (e # es) s = run es (loop e s)"

section \<open>Boot\<close>

text \<open>
  What \<^verbatim>\<open>setup()\<close> reads from its environment: the boot button, whether the
  display and the sensor answer, the link status at each evaluation of the waiting
  loop's condition (numbered by \<open>attempts\<close>) and at the two later checks, and the
  broker's answer to the connect of the reset path.
\<close>

record boot =
  button_low :: bool
  oled_found :: bool
  bme_found :: bool
  wifi_poll :: "nat \<Rightarrow> bool"
  wifi_reset :: bool
  wifi_ip :: bool
  reset_accept :: bool

text \<open>
  \<^verbatim>\<open>setup()\<close> ends in one of three ways: it returns and the loop starts, it hangs in
  the endless loop of a missing peripheral, or it restarts the chip.
\<close>

datatype outcome = Running | Halted | Restarted

text \<open>Rotation, text colour and code page of the display are left out.\<close>

definition initOled :: "boot \<Rightarrow> node \<Rightarrow> outcome \<times> node" where
  "initOled b s =
     (if \<not> oled_found b then (Halted, s)
      else
        (let s1 = delay 1000 (display s);
             s2 = delay 1000 (display (clearDisplay s1));
             s3 = paint [SetTextSize 1, SetCursor 0 0] s2
         in (Running, delay 1000 s3)))"

definition initBME :: "boot \<Rightarrow> node \<Rightarrow> outcome \<times> node" where
  "initBME b s = (if \<not> bme_found b then (Halted, s) else (Running, emit SetSampling s))"

function wifi_wait :: "(nat \<Rightarrow> bool) \<Rightarrow> nat \<Rightarrow> node \<Rightarrow> node" where
  "wifi_wait poll attempts s =
     (if \<not> poll attempts \<and> attempts < 20
      then wifi_wait poll (attempts + 1) (delay 500 s)
      else s)"
  by pat_completeness auto
termination
  by (relation "measure (\<lambda>(poll, attempts, s). 20 - attempts)") auto

declare wifi_wait.simps [simp del]

definition setupWiFi :: "boot \<Rightarrow> node \<Rightarrow> node" where
  "setupWiFi b s = wifi_wait (wifi_poll b) 0 (emit (WifiBegin WIFI_SSID WIFI_PASSWORD) s)"

text \<open>The reset block of \<^verbatim>\<open>setup()\<close>, entered with the link up.\<close>

definition reset_block :: "boot \<Rightarrow> node \<Rightarrow> outcome \<times> node" where
  "reset_block b s =
     (let s1 = display (paint [Println ''Resetting'', Println ''MQTT...'']
                  (paint [SetCursor 0 0] (clearDisplay s)));
          s2 = emit (Connect DEVICE_NAME MQTT_USER MQTT_PASSWORD None (reset_accept b)) s1
      in if reset_accept b then
           (let s3 = resetMQTT (s2\<lparr>session := True\<rparr>);
                s4 = emit Disconnect (s3\<lparr>session := False\<rparr>);
                s5 = display (paint
                       [Println ''MQTT Reset'', Println ''Complete!'', PrintlnEmpty,
                        Println ''Restarting'', Println ''in 3s...'']
                       (paint [SetCursor 0 0] (clearDisplay s4)));
                s6 = delay 3000 s5
            in (Restarted, emit Restart s6))
         else
           (let s3 = display (paint
                       [Println ''MQTT Reset'', Println ''FAILED!'', PrintlnEmpty,
                        Println ''Check MQTT'', Println ''settings'']
                       (paint [SetCursor 0 0] (clearDisplay s2)));
                s4 = delay 5000 s3
            in (Running, s4\<lparr>mqttResetRequested := False\<rparr>)))"

definition show_ip :: "boot \<Rightarrow> node \<Rightarrow> node" where
  "show_ip b s =
     (if wifi_ip b then
        delay 2000 (display (paint
          [Println ''WiFi'', Println ''Connected!'', PrintlnEmpty, PrintlnIP]
          (paint [SetCursor 0 0] (clearDisplay s))))
      else s)"

definition setup_net :: "boot \<Rightarrow> node \<Rightarrow> outcome \<times> node" where
  "setup_net b s =
     (let s1 = paint [SetCursor 0 0, SetTextSize 1] (clearDisplay s);
          s2 = (if mqttResetRequested s1
                then paint [Println ''MQTT RESET'', Println ''MODE'', PrintlnEmpty,
                            Println ''Connecting'', Println ''to WiFi...''] s1
                else paint [Println ''Connecting'', Println ''to WiFi...''] s1);
          s3 = setupWiFi b (display s2);
          s4 = setBufferSize 512 (emit (SetServer MQTT_SERVER MQTT_PORT) s3)
      in if mqttResetRequested s4 \<and> wifi_reset b then
           (case reset_block b s4 of
              (Running, s5) \<Rightarrow> (Running, show_ip b s5)
            | r \<Rightarrow> r)
         else (Running, show_ip b s4))"

text \<open>\<^verbatim>\<open>setup()\<close> of the source.\<close>

definition setup_fn :: "boot \<Rightarrow> outcome \<times> node" where
  "setup_fn b =
     (let s1 = delay 1000 power_on;
          s2 = (if button_low b then s1\<lparr>mqttResetRequested := True\<rparr> else s1)
      in case initOled b s2 of
           (Running, s3) \<Rightarrow>
             (case initBME b s3 of
                (Running, s4) \<Rightarrow> setup_net b s4
              | r \<Rightarrow> r)
         | r \<Rightarrow> r)"

text \<open>The four publishes \<^verbatim>\<open>mqttReconnect\<close> makes once the broker has accepted.\<close>

definition edge_block :: "event list" where
  "edge_block =
     [Publish MQTT_AVAILABILITY_TOPIC (Raw ''online'') True,
      Publish (config_topic MQTT_DISCOVERY_PREFIX DEVICE_NAME ''temperature'')
        (Doc (temperature_doc DEVICE_NAME DEVICE_FRIENDLY_NAME)) True,
      Publish (config_topic MQTT_DISCOVERY_PREFIX DEVICE_NAME ''humidity'')
        (Doc (humidity_doc DEVICE_NAME DEVICE_FRIENDLY_NAME)) True,
      Publish (config_topic MQTT_DISCOVERY_PREFIX DEVICE_NAME ''pressure'')
        (Doc (pressure_doc DEVICE_NAME DEVICE_FRIENDLY_NAME)) True]"

section \<open>Reading a trace\<close>

text \<open>What a function adds to the trace of the state it is given.\<close>

definition emitted :: "(node \<Rightarrow> node) \<Rightarrow> node \<Rightarrow> event list" where
  "emitted f s = drop (length (trace s)) (trace (f s))"

fun is_connect :: "event \<Rightarrow> bool" where
  "is_connect (Connect cid usr pw w ok) = True"
| "is_connect ev = False"

fun is_clock :: "event \<Rightarrow> bool" where
  "is_clock (ClockRead t) = True"
| "is_clock ev = False"

fun is_delay :: "event \<Rightarrow> bool" where
  "is_delay (Delay ms) = True"
| "is_delay ev = False"

fun is_frame :: "event \<Rightarrow> bool" where
  "is_frame (Frame ds) = True"
| "is_frame ev = False"

fun is_publish :: "event \<Rightarrow> bool" where
  "is_publish (Publish topic p retained) = True"
| "is_publish ev = False"

fun is_wifi_begin :: "event \<Rightarrow> bool" where
  "is_wifi_begin (WifiBegin ssid pw) = True"
| "is_wifi_begin ev = False"


fun accepted :: "event \<Rightarrow> bool" where
  "accepted (Connect cid usr pw w ok) = ok"
| "accepted ev = False"

text \<open>
  A payload is empty when it is the empty C string; the text of a JSON document never is.
\<close>

fun nonempty :: "payload \<Rightarrow> bool" where
  "nonempty (Raw txt) = (txt \<noteq> [])"
| "nonempty (Doc j) = True"

text \<open>Non-empty retained publishes to one topic.\<close>

fun announces :: "string \<Rightarrow> event \<Rightarrow> bool" where
  "announces topic (Publish t p retained) = (t = topic \<and> nonempty p \<and> retained)"
| "announces topic ev = False"

subsection \<open>The order of publishes within a session\<close>

text \<open>
  An acceptor for the order of the calls on the client. \<open>Idle\<close>: no connect has been
  accepted yet.
  An accepted connect opens a session (\<open>Opened\<close>); the next four calls must be the
  retained \<^verbatim>\<open>online\<close> on the availability topic (\<open>Online\<close>) and one non-empty
  retained publish to the temperature, humidity and pressure config topics, in this
  order (\<open>SentT\<close>, \<open>SentH\<close>, then \<open>Live\<close>). In \<open>Live\<close> only the state topic may be
  published to, until the next accepted connect. A publish in \<open>Idle\<close>, a config publish
  outside the four calls after an accepted connect, and any other call in between
  them are refused. A rejected connect leaves no session: the acceptor is back in
  \<open>Idle\<close>, where every publish is refused.
\<close>

datatype phase = Idle | Opened | Online | SentT | SentH | Live

fun call_step :: "phase \<Rightarrow> event \<Rightarrow> phase option" where
  "call_step ph (Connect cid usr pw w ok) =
     (if ph = Idle \<or> ph = Live then Some (if ok then Opened else Idle) else None)"
| "call_step ph (Publish topic p retained) =
     (case ph of
        Idle \<Rightarrow> None
      | Opened \<Rightarrow>
          if topic = MQTT_AVAILABILITY_TOPIC \<and> p = Raw ''online'' \<and> retained
          then Some Online else None
      | Online \<Rightarrow>
          if topic = config_topic MQTT_DISCOVERY_PREFIX DEVICE_NAME ''temperature''
             \<and> nonempty p \<and> retained
          then Some SentT else None
      | SentT \<Rightarrow>
          if topic = config_topic MQTT_DISCOVERY_PREFIX DEVICE_NAME ''humidity''
             \<and> nonempty p \<and> retained
          then Some SentH else None
      | SentH \<Rightarrow>
          if topic = config_topic MQTT_DISCOVERY_PREFIX DEVICE_NAME ''pressure''
             \<and> nonempty p \<and> retained
          then Some Live else None
      | Live \<Rightarrow> if topic = MQTT_STATE_TOPIC then Some Live else None)"
| "call_step ph ev = (if ph = Idle \<or> ph = Live then Some ph else None)"

fun call_scan :: "phase \<Rightarrow> event list \<Rightarrow> phase option" where
  "call_scan ph [] = Some ph"
| "call_scan ph (ev # evs) =
     (case call_step ph ev of None \<Rightarrow> None | Some ph' \<Rightarrow> call_scan ph' evs)"

definition calls_ok :: "event list \<Rightarrow> bool" where
  "calls_ok tr = (call_scan Idle tr = Some Idle \<or> call_scan Idle tr = Some Live)"

subsection \<open>The state the loop starts from\<close>

text \<open>A call that publishes nothing and opens no session.\<close>

fun harmless :: "event \<Rightarrow> bool" where
  "harmless (Publish topic p retained) = False"
| "harmless (Connect cid usr pw w ok) = (\<not> ok)"
| "harmless ev = True"

text \<open>
  What holds of the state when \<^verbatim>\<open>setup()\<close> returns: the reading and the four
  deadlines are still zero, the client has no session, and nothing has been published.
\<close>

definition fresh :: "node \<Rightarrow> bool" where
  "fresh s =
     (humid s = Fin 0 \<and> tempC s = Fin 0 \<and> pressure s = Fin 0
      \<and> oledTime s = 0 \<and> bmeTime s = 0 \<and> mqttTime s = 0 \<and> wifiReconnectTime s = 0
      \<and> \<not> session s \<and> list_all harmless (trace s))"

text \<open>
  The acceptor and the client agree: the trace so far is accepted, and for a client that
  holds a session the four publishes that follow an accepted connect have been called.
\<close>

definition synced :: "node \<Rightarrow> bool" where
  "synced s =
     (call_scan Idle (trace s) = Some Live
      \<or> (call_scan Idle (trace s) = Some Idle \<and> \<not> session s))"

subsection \<open>What the broker receives\<close>

text \<open>The publishes the client has written to the broker for one topic.\<close>

definition received :: "string \<Rightarrow> node \<Rightarrow> (string \<times> payload \<times> bool) list" where
  "received topic s = filter (\<lambda>w. fst w = topic) (wire s)"

section \<open>Sample environments\<close>

text \<open>
  A pass of the loop at clock reading \<open>t\<close> with the link up, the transport open, a broker
  that answers a connect with \<open>ok\<close>, and the sensor giving \<open>h\<close>, \<open>c\<close> and \<open>p\<close>.
\<close>

definition pass :: "ulong \<Rightarrow> bool \<Rightarrow> cfloat \<Rightarrow> cfloat \<Rightarrow> cfloat \<Rightarrow> tick" where
  "pass t ok h c p =
     \<lparr> wifi_check = True, wifi_loop = True, wifi_reconnect = True,
       alive_loop = True, alive_reconnect = True, alive_pump = True, alive_publish = True,
       accept = ok,
       ms_wifi = t, ms_wifi_set = t, ms_bme = t, ms_bme_set = t,
       ms_oled = t, ms_oled_set = t, ms_mqtt = t, ms_mqtt_set = t,
       bme_humidity = h, bme_temperature = c, bme_pressure = p \<rparr>"

text \<open>A boot with both peripherals present and a link that is up from the first poll.\<close>

definition boot_with :: "bool \<Rightarrow> bool \<Rightarrow> boot" where
  "boot_with button ok =
     \<lparr> button_low = button, oled_found = True, bme_found = True,
       wifi_poll = (\<lambda>n. True), wifi_reset = True, wifi_ip = True,
       reset_accept = ok \<rparr>"

section \<open>What each stage adds to the trace\<close>

lemma emit_fields:
  "trace (emit ev s) = trace s @ [ev]"
  "humid (emit ev s) = humid s" "tempC (emit ev s) = tempC s" "pressure (emit ev s) = pressure s"
  "oledTime (emit ev s) = oledTime s" "bmeTime (emit ev s) = bmeTime s"
  "mqttTime (emit ev s) = mqttTime s" "wifiReconnectTime (emit ev s) = wifiReconnectTime s"
  "mqttDiscoverySent (emit ev s) = mqttDiscoverySent s"
  "mqttResetRequested (emit ev s) = mqttResetRequested s"
  "session (emit ev s) = session s" "fb (emit ev s) = fb s"
  "bufferSize (emit ev s) = bufferSize s" "wire (emit ev s) = wire s"
  by (simp_all add: emit_def)

lemma publish_fields:
  "trace (publish topic p retained s) = trace s @ [Publish topic p retained]"
  "humid (publish topic p retained s) = humid s"
  "tempC (publish topic p retained s) = tempC s"
  "pressure (publish topic p retained s) = pressure s"
  "oledTime (publish topic p retained s) = oledTime s"
  "bmeTime (publish topic p retained s) = bmeTime s"
  "mqttTime (publish topic p retained s) = mqttTime s"
  "wifiReconnectTime (publish topic p retained s) = wifiReconnectTime s"
  "mqttDiscoverySent (publish topic p retained s) = mqttDiscoverySent s"
  "mqttResetRequested (publish topic p retained s) = mqttResetRequested s"
  "session (publish topic p retained s) = session s"
  "fb (publish topic p retained s) = fb s"
  "bufferSize (publish topic p retained s) = bufferSize s"
  by (simp_all add: publish_def Let_def emit_fields)

lemma wire_publish:
  "wire (publish topic p retained s) =
     (if session s \<and> \<not> bufferSize s < packet_size (bufferSize s) topic p
      then wire s @ [(topic, p, retained)] else wire s)"
  by (simp add: publish_def Let_def emit_fields)

lemma publish_latch:
  "publish topic p retained (s\<lparr>mqttDiscoverySent := x\<rparr>)
     = (publish topic p retained s)\<lparr>mqttDiscoverySent := x\<rparr>"
  by (simp add: publish_def Let_def emit_def)

lemma binade_numeral:
  "binade (numeral k) x =
     (if 2 \<le> x then binade (pred_numeral k) (x / 2) + 1
      else if x < 1 then binade (pred_numeral k) (x * 2) - 1
      else 0)"
  by (simp add: numeral_eq_Suc)

lemmas binary32 = to_binary32_def binade_numeral pow2_def round_half_even_def

lemmas prims = emit_fields publish_fields delay_def display_def paint_def clearDisplay_def
  setBufferSize_def connected_def Let_def

lemma trace_checkWiFi:
  "trace (checkWiFi e s) = trace s @
     (if wifi_check e then []
      else if ms_wifi e - wifiReconnectTime s \<ge> wifiReconnectDelay
        then [ClockRead (ms_wifi e), ClockRead (ms_wifi_set e), WifiDisconnect,
              WifiBegin WIFI_SSID WIFI_PASSWORD]
        else [ClockRead (ms_wifi e)])"
  by (simp add: checkWiFi_def prims)

lemma session_checkWiFi: "session (checkWiFi e s) = session s"
  by (simp add: checkWiFi_def prims)

lemma trace_loop_session:
  "trace (loop_session e s) = trace s @
     (if wifi_loop e then
        (if \<not> (session s \<and> alive_loop e) \<and> wifi_reconnect e then
           Connect DEVICE_NAME MQTT_USER MQTT_PASSWORD
             (Some (MQTT_AVAILABILITY_TOPIC, 0, True, ''offline'')) (accept e)
           # (if accept e then edge_block else [])
         else []) @ [Pump]
      else [])"
  by (simp add: loop_session_def mqttReconnect_def publishDiscovery_def prims edge_block_def)

lemma session_loop_session:
  "session (loop_session e s) =
     (if wifi_loop e
      then ((session s \<and> alive_loop e) \<or> (wifi_reconnect e \<and> accept e)) \<and> alive_pump e
      else session s)"
  by (auto simp add: loop_session_def mqttReconnect_def publishDiscovery_def prims)

lemma trace_loop_bme:
  "trace (loop_bme e s) = trace s @
     (if ms_bme e - bmeTime s \<ge> bmeDelay \<or> bmeTime s = 0
      then [ClockRead (ms_bme e), ClockRead (ms_bme_set e)] else [ClockRead (ms_bme e)])"
  by (simp add: loop_bme_def readBME_def prims)

lemma session_loop_bme: "session (loop_bme e s) = session s"
  by (simp add: loop_bme_def readBME_def prims)

lemma trace_printBME:
  "trace (printBME s) = trace s @
     (if isnan (humid s) \<or> isnan (tempC s)
      then [Frame [SetCursor 0 0, SetTextSize 1, Println ''BME Error''], Delay 1000]
      else [Frame
          [SetCursor 0 0,
           SetTextSize 1, Println ''Humid:'',
           SetTextSize 2, PrintNum (humid s) 1, Println ''%'',
           PrintlnEmpty,
           SetTextSize 1, Println ''Temp:'',
           SetTextSize 2, PrintNum (tempC s) 1, Println ''C'',
           PrintlnEmpty,
           SetTextSize 1, Println ''Press:'',
           SetTextSize 2, PrintNum (pressure s) 0,
           SetTextSize 1, Println ''hPa'']])"
  by (simp add: printBME_def prims)

lemma session_printBME: "session (printBME s) = session s"
  by (simp add: printBME_def prims)

lemma trace_loop_oled:
  "trace (loop_oled e s) = trace s @
     (if ms_oled e - oledTime s \<ge> oledDelay \<or> oledTime s = 0
      then [ClockRead (ms_oled e), ClockRead (ms_oled_set e)]
           @ emitted printBME s
      else [ClockRead (ms_oled e)])"
  by (simp add: loop_oled_def emitted_def trace_printBME prims)

lemma session_loop_oled: "session (loop_oled e s) = session s"
  by (simp add: loop_oled_def session_printBME prims)

lemma trace_loop_mqtt:
  "trace (loop_mqtt e s) = trace s @
     (if ms_mqtt e - mqttTime s \<ge> mqttDelay \<or> mqttTime s = 0
      then [ClockRead (ms_mqtt e), ClockRead (ms_mqtt_set e)]
           @ (if session s \<and> alive_publish e
              then [Publish MQTT_STATE_TOPIC (Doc (state_doc s)) True] else [])
      else [ClockRead (ms_mqtt e)])"
  by (simp add: loop_mqtt_def publishSensorData_def state_doc_def prims)

lemma session_loop_mqtt:
  "session (loop_mqtt e s) =
     (if ms_mqtt e - mqttTime s \<ge> mqttDelay \<or> mqttTime s = 0
      then session s \<and> alive_publish e else session s)"
  by (simp add: loop_mqtt_def publishSensorData_def prims)


lemma emitted_append: "trace (f s) = trace s @ evs \<Longrightarrow> emitted f s = evs"
  by (simp add: emitted_def)

lemma fields_loop_bme:
  "bmeTime (loop_bme e s) =
     (if ms_bme e - bmeTime s \<ge> bmeDelay \<or> bmeTime s = 0 then ms_bme_set e else bmeTime s)"
  "humid (loop_bme e s) =
     (if ms_bme e - bmeTime s \<ge> bmeDelay \<or> bmeTime s = 0 then bme_humidity e else humid s)"
  "tempC (loop_bme e s) =
     (if ms_bme e - bmeTime s \<ge> bmeDelay \<or> bmeTime s = 0 then bme_temperature e else tempC s)"
  "pressure (loop_bme e s) =
     (if ms_bme e - bmeTime s \<ge> bmeDelay \<or> bmeTime s = 0
      then fdiv (bme_pressure e) 100 else pressure s)"
  "oledTime (loop_bme e s) = oledTime s"
  "mqttTime (loop_bme e s) = mqttTime s"
  by (simp_all add: loop_bme_def readBME_def prims)

lemma oledTime_loop_oled:
  "oledTime (loop_oled e s) =
     (if ms_oled e - oledTime s \<ge> oledDelay \<or> oledTime s = 0 then ms_oled_set e else oledTime s)"
  by (simp add: loop_oled_def printBME_def prims)

lemma mqttTime_loop_mqtt:
  "mqttTime (loop_mqtt e s) =
     (if ms_mqtt e - mqttTime s \<ge> mqttDelay \<or> mqttTime s = 0 then ms_mqtt_set e else mqttTime s)"
  by (simp add: loop_mqtt_def publishSensorData_def prims)

lemma wifiReconnectTime_checkWiFi:
  "wifiReconnectTime (checkWiFi e s) =
     (if \<not> wifi_check e \<and> ms_wifi e - wifiReconnectTime s \<ge> wifiReconnectDelay
      then ms_wifi_set e else wifiReconnectTime s)"
  by (simp add: checkWiFi_def prims)

section \<open>Soft deadlines\<close>

text \<open>
  C4, as amended. The three deadlines of the loop (sensor sample every 41 ms, display
  refresh every 2000 ms, state publish every 10000 ms) fire exactly when
  \<^verbatim>\<open>millis() - deadline >= period\<close> holds in 32-bit unsigned arithmetic or the deadline
  is zero; a firing deadline is set to a fresh reading of \<^verbatim>\<open>millis()\<close> and its
  collaborator runs once (the sample is taken, one frame is flushed, the state is published
  when the session is up), otherwise the deadline is left alone. So a deadline that is
  still zero fires at the first check, whatever the clock reads. The cooldown of the link
  retry (30000 ms) is checked only while the link is down and has no zero case: it fires
  exactly when \<^verbatim>\<open>millis() - deadline >= period\<close>.
\<close>

theorem deadline_checks:
  "bmeTime (loop_bme e s) =
     (if ms_bme e - bmeTime s \<ge> 41 \<or> bmeTime s = 0 then ms_bme_set e else bmeTime s)
   \<and> (humid (loop_bme e s), tempC (loop_bme e s), pressure (loop_bme e s)) =
     (if ms_bme e - bmeTime s \<ge> 41 \<or> bmeTime s = 0
      then (bme_humidity e, bme_temperature e, fdiv (bme_pressure e) 100)
      else (humid s, tempC s, pressure s))
   \<and> oledTime (loop_oled e s) =
     (if ms_oled e - oledTime s \<ge> 2000 \<or> oledTime s = 0 then ms_oled_set e else oledTime s)
   \<and> length (filter is_frame (emitted (loop_oled e) s)) =
     (if ms_oled e - oledTime s \<ge> 2000 \<or> oledTime s = 0 then 1 else 0)
   \<and> mqttTime (loop_mqtt e s) =
     (if ms_mqtt e - mqttTime s \<ge> 10000 \<or> mqttTime s = 0 then ms_mqtt_set e else mqttTime s)
   \<and> filter is_publish (emitted (loop_mqtt e) s) =
     (if (ms_mqtt e - mqttTime s \<ge> 10000 \<or> mqttTime s = 0) \<and> session s \<and> alive_publish e
      then [Publish MQTT_STATE_TOPIC (Doc (state_doc s)) True] else [])
   \<and> wifiReconnectTime (checkWiFi e s) =
     (if \<not> wifi_check e \<and> ms_wifi e - wifiReconnectTime s \<ge> 30000
      then ms_wifi_set e else wifiReconnectTime s)
   \<and> filter is_wifi_begin (emitted (checkWiFi e) s) =
     (if \<not> wifi_check e \<and> ms_wifi e - wifiReconnectTime s \<ge> 30000
      then [WifiBegin WIFI_SSID WIFI_PASSWORD] else [])"
proof -
  have oled: "emitted (loop_oled e) s =
     (if ms_oled e - oledTime s \<ge> oledDelay \<or> oledTime s = 0
      then [ClockRead (ms_oled e), ClockRead (ms_oled_set e)] @ emitted printBME s
      else [ClockRead (ms_oled e)])"
    by (rule emitted_append) (rule trace_loop_oled)
  have frame: "length (filter is_frame (emitted printBME s)) = 1"
    by (simp add: emitted_append [OF trace_printBME])
  have mqtt: "emitted (loop_mqtt e) s =
     (if ms_mqtt e - mqttTime s \<ge> mqttDelay \<or> mqttTime s = 0
      then [ClockRead (ms_mqtt e), ClockRead (ms_mqtt_set e)]
           @ (if session s \<and> alive_publish e
              then [Publish MQTT_STATE_TOPIC (Doc (state_doc s)) True] else [])
      else [ClockRead (ms_mqtt e)])"
    by (rule emitted_append) (rule trace_loop_mqtt)
  have wifi: "emitted (checkWiFi e) s =
     (if wifi_check e then []
      else if ms_wifi e - wifiReconnectTime s \<ge> wifiReconnectDelay
        then [ClockRead (ms_wifi e), ClockRead (ms_wifi_set e), WifiDisconnect,
              WifiBegin WIFI_SSID WIFI_PASSWORD]
        else [ClockRead (ms_wifi e)])"
    by (rule emitted_append) (rule trace_checkWiFi)
  show ?thesis
    using frame
    by (simp add: fields_loop_bme oledTime_loop_oled mqttTime_loop_mqtt
        wifiReconnectTime_checkWiFi oled mqtt wifi
        bmeDelay_def oledDelay_def mqttDelay_def wifiReconnectDelay_def)
qed


text \<open>
  C4 as stated fails twice. The state-publish deadline, still zero, fires at clock
  reading 7000 although \<open>7000 - 0 < 10000\<close>: the check is not equivalent to
  \<^verbatim>\<open>now() - deadline >= period\<close>. The link-retry cooldown, still zero, does not fire at
  clock reading 14000 with the link down: a deadline that has never fired does not always
  fire on the first check.
\<close>

theorem deadline_checks_counterexample:
  "mqttTime power_on = 0
   \<and> \<not> (ms_mqtt (pass 7000 True (Fin 41.2) (Fin 23.45) (Fin 101327)) - mqttTime power_on \<ge> mqttDelay)
   \<and> mqttTime (loop_mqtt (pass 7000 True (Fin 41.2) (Fin 23.45) (Fin 101327)) power_on) = 7000
   \<and> wifiReconnectTime power_on = 0
   \<and> emitted (checkWiFi ((pass 14000 True (Fin 41.2) (Fin 23.45) (Fin 101327))\<lparr>wifi_check := False\<rparr>)) power_on
       = [ClockRead 14000]"
  by (simp add: mqttTime_loop_mqtt emitted_append [OF trace_checkWiFi] pass_def power_on_def
      mqttDelay_def wifiReconnectDelay_def)


text \<open>
  The subtraction wraps with the counter: a sensor deadline set 16 ms before the counter
  overflows fires 48 ms later, at clock reading 32, and not 32 ms later, at clock
  reading 16.
\<close>

lemma deadline_across_wrap:
  "bmeTime (loop_bme (pass 0x20 True (Fin 41.2) (Fin 23.45) (Fin 101327))
      (power_on\<lparr>bmeTime := 0xFFFFFFF0\<rparr>)) = 0x20
   \<and> bmeTime (loop_bme (pass 0x10 True (Fin 41.2) (Fin 23.45) (Fin 101327))
      (power_on\<lparr>bmeTime := 0xFFFFFFF0\<rparr>)) = 0xFFFFFFF0"
  by (simp add: fields_loop_bme pass_def power_on_def bmeDelay_def)

section \<open>A pass of the loop as a whole\<close>

lemma trace_emitted: "trace (f s) = trace s @ evs \<Longrightarrow> trace (f s) = trace s @ emitted f s"
  by (simp add: emitted_def)

lemma emitted_checkWiFi:
  "emitted (checkWiFi e) s =
     (if wifi_check e then []
      else if ms_wifi e - wifiReconnectTime s \<ge> wifiReconnectDelay
        then [ClockRead (ms_wifi e), ClockRead (ms_wifi_set e), WifiDisconnect,
              WifiBegin WIFI_SSID WIFI_PASSWORD]
        else [ClockRead (ms_wifi e)])"
  by (rule emitted_append) (rule trace_checkWiFi)

lemma emitted_loop_session:
  "emitted (loop_session e) s =
     (if wifi_loop e then
        (if \<not> (session s \<and> alive_loop e) \<and> wifi_reconnect e then
           Connect DEVICE_NAME MQTT_USER MQTT_PASSWORD
             (Some (MQTT_AVAILABILITY_TOPIC, 0, True, ''offline'')) (accept e)
           # (if accept e then edge_block else [])
         else []) @ [Pump]
      else [])"
  by (rule emitted_append) (rule trace_loop_session)

lemma emitted_loop_bme:
  "emitted (loop_bme e) s =
     (if ms_bme e - bmeTime s \<ge> bmeDelay \<or> bmeTime s = 0
      then [ClockRead (ms_bme e), ClockRead (ms_bme_set e)] else [ClockRead (ms_bme e)])"
  by (rule emitted_append) (rule trace_loop_bme)

lemma emitted_printBME:
  "emitted printBME s =
     (if isnan (humid s) \<or> isnan (tempC s)
      then [Frame [SetCursor 0 0, SetTextSize 1, Println ''BME Error''], Delay 1000]
      else [Frame
          [SetCursor 0 0,
           SetTextSize 1, Println ''Humid:'',
           SetTextSize 2, PrintNum (humid s) 1, Println ''%'',
           PrintlnEmpty,
           SetTextSize 1, Println ''Temp:'',
           SetTextSize 2, PrintNum (tempC s) 1, Println ''C'',
           PrintlnEmpty,
           SetTextSize 1, Println ''Press:'',
           SetTextSize 2, PrintNum (pressure s) 0,
           SetTextSize 1, Println ''hPa'']])"
  by (rule emitted_append) (rule trace_printBME)

lemma emitted_loop_oled:
  "emitted (loop_oled e) s =
     (if ms_oled e - oledTime s \<ge> oledDelay \<or> oledTime s = 0
      then [ClockRead (ms_oled e), ClockRead (ms_oled_set e)] @ emitted printBME s
      else [ClockRead (ms_oled e)])"
  by (rule emitted_append) (rule trace_loop_oled)

lemma emitted_loop_mqtt:
  "emitted (loop_mqtt e) s =
     (if ms_mqtt e - mqttTime s \<ge> mqttDelay \<or> mqttTime s = 0
      then [ClockRead (ms_mqtt e), ClockRead (ms_mqtt_set e)]
           @ (if session s \<and> alive_publish e
              then [Publish MQTT_STATE_TOPIC (Doc (state_doc s)) True] else [])
      else [ClockRead (ms_mqtt e)])"
  by (rule emitted_append) (rule trace_loop_mqtt)

lemma fields_checkWiFi:
  "humid (checkWiFi e s) = humid s" "tempC (checkWiFi e s) = tempC s"
  "pressure (checkWiFi e s) = pressure s" "bmeTime (checkWiFi e s) = bmeTime s"
  "oledTime (checkWiFi e s) = oledTime s" "mqttTime (checkWiFi e s) = mqttTime s"
  by (simp_all add: checkWiFi_def prims)

lemma fields_loop_session:
  "humid (loop_session e s) = humid s" "tempC (loop_session e s) = tempC s"
  "pressure (loop_session e s) = pressure s" "bmeTime (loop_session e s) = bmeTime s"
  "oledTime (loop_session e s) = oledTime s" "mqttTime (loop_session e s) = mqttTime s"
  by (simp_all add: loop_session_def mqttReconnect_def publishDiscovery_def prims)

lemma fields_printBME:
  "humid (printBME s) = humid s" "tempC (printBME s) = tempC s"
  "pressure (printBME s) = pressure s" "mqttTime (printBME s) = mqttTime s"
  by (simp_all add: printBME_def prims)

lemma fields_loop_oled:
  "humid (loop_oled e s) = humid s" "tempC (loop_oled e s) = tempC s"
  "pressure (loop_oled e s) = pressure s" "mqttTime (loop_oled e s) = mqttTime s"
  by (simp_all add: loop_oled_def fields_printBME prims)

lemma trace_emitted_checkWiFi: "trace (checkWiFi e s) = trace s @ emitted (checkWiFi e) s"
  by (rule trace_emitted) (rule trace_checkWiFi)

lemma trace_emitted_loop_session:
  "trace (loop_session e s) = trace s @ emitted (loop_session e) s"
  by (rule trace_emitted) (rule trace_loop_session)

lemma trace_emitted_loop_bme: "trace (loop_bme e s) = trace s @ emitted (loop_bme e) s"
  by (rule trace_emitted) (rule trace_loop_bme)

lemma trace_emitted_loop_oled: "trace (loop_oled e s) = trace s @ emitted (loop_oled e) s"
  by (rule trace_emitted) (rule trace_loop_oled)

lemma trace_emitted_loop_mqtt: "trace (loop_mqtt e s) = trace s @ emitted (loop_mqtt e) s"
  by (rule trace_emitted) (rule trace_loop_mqtt)

lemma emitted_loop:
  "emitted (loop e) s =
     emitted (checkWiFi e) s
     @ emitted (loop_session e) (checkWiFi e s)
     @ emitted (loop_bme e) (loop_session e (checkWiFi e s))
     @ emitted (loop_oled e) (loop_bme e (loop_session e (checkWiFi e s)))
     @ emitted (loop_mqtt e) (loop_oled e (loop_bme e (loop_session e (checkWiFi e s))))"
  by (rule emitted_append)
    (simp only: loop_def trace_emitted_loop_mqtt [of e "loop_oled e (loop_bme e (loop_session e (checkWiFi e s)))"]
      trace_emitted_loop_oled [of e "loop_bme e (loop_session e (checkWiFi e s))"]
      trace_emitted_loop_bme [of e "loop_session e (checkWiFi e s)"]
      trace_emitted_loop_session [of e "checkWiFi e s"]
      trace_emitted_checkWiFi [of e s] append_assoc)

lemma trace_loop: "trace (loop e s) = trace s @ emitted (loop e) s"
  unfolding loop_def emitted_def
  by (simp add: trace_loop_mqtt trace_loop_oled trace_loop_bme trace_loop_session trace_checkWiFi)

section \<open>The display renderer\<close>

text \<open>
  C2, evaluated where it fails. \<^verbatim>\<open>printBME\<close> tests \<^verbatim>\<open>isnan(humid) || isnan(tempC)\<close>
  only. With humidity 41.2, temperature 23.4 and a pressure that is NaN the reading is not
  treated as invalid: the renderer paints the three panels, the pressure panel printing
  NaN, and no \<^verbatim>\<open>BME Error\<close> banner.
\<close>

theorem pressure_nan_not_flagged:
  "emitted printBME (power_on\<lparr>humid := Fin 41.2, tempC := Fin 23.4, pressure := NaN\<rparr>) =
     [Frame
        [SetCursor 0 0,
         SetTextSize 1, Println ''Humid:'',
         SetTextSize 2, PrintNum (Fin 41.2) 1, Println ''%'',
         PrintlnEmpty,
         SetTextSize 1, Println ''Temp:'',
         SetTextSize 2, PrintNum (Fin 23.4) 1, Println ''C'',
         PrintlnEmpty,
         SetTextSize 1, Println ''Press:'',
         SetTextSize 2, PrintNum NaN 0,
         SetTextSize 1, Println ''hPa'']]"
  by (simp add: emitted_printBME power_on_def)

text \<open>
  C9, as amended. Rendering a reading whose humidity and temperature are numbers flushes
  one frame and calls no \<^verbatim>\<open>delay\<close>. Rendering a reading whose humidity or
  temperature is NaN flushes the banner frame and then sleeps 1000 ms. A pass of the loop
  calls \<^verbatim>\<open>delay\<close> nowhere else: it sleeps 1000 ms exactly when the display deadline
  fires on such a reading (the one just sampled when the sensor deadline fired in the same
  pass, the one held before otherwise), and not at all otherwise. Time spent inside the
  drivers is not part of the model.
\<close>

theorem renderer_sleep:
  "filter is_delay (emitted printBME s) =
     (if isnan (humid s) \<or> isnan (tempC s) then [Delay 1000] else [])
   \<and> length (filter is_frame (emitted printBME s)) = 1
   \<and> filter is_delay (emitted (loop e) s) =
     (if (ms_oled e - oledTime s \<ge> oledDelay \<or> oledTime s = 0)
         \<and> (if ms_bme e - bmeTime s \<ge> bmeDelay \<or> bmeTime s = 0
              then isnan (bme_humidity e) \<or> isnan (bme_temperature e)
              else isnan (humid s) \<or> isnan (tempC s))
      then [Delay 1000] else [])"
  by (simp add: emitted_loop emitted_checkWiFi emitted_loop_session emitted_loop_bme
      emitted_loop_oled emitted_loop_mqtt emitted_printBME edge_block_def
      fields_checkWiFi fields_loop_session fields_loop_bme)

text \<open>
  C9 as stated fails: rendering a reading with a NaN humidity flushes the banner and then
  calls \<^verbatim>\<open>delay(1000)\<close>.
\<close>

theorem renderer_sleep_counterexample:
  "emitted printBME (power_on\<lparr>humid := NaN\<rparr>) =
     [Frame [SetCursor 0 0, SetTextSize 1, Println ''BME Error''], Delay 1000]"
  by (simp add: emitted_printBME power_on_def)

section \<open>The state publisher\<close>




subsection \<open>The error of the single-precision product\<close>
















section \<open>Boot and the reset path\<close>

lemma wifi_wait_trace:
  "\<exists>n. wifi_wait poll attempts s = s\<lparr>trace := trace s @ replicate n (Delay 500)\<rparr>"
proof (induction poll attempts s rule: wifi_wait.induct)
  case (1 poll attempts s)
  show ?case
  proof (cases "\<not> poll attempts \<and> attempts < 20")
    case True
    with 1 obtain n where rec:
      "wifi_wait poll (attempts + 1) (delay 500 s) =
         (delay 500 s)\<lparr>trace := trace (delay 500 s) @ replicate n (Delay 500)\<rparr>"
      by blast
    from True have "wifi_wait poll attempts s = wifi_wait poll (attempts + 1) (delay 500 s)"
      by (subst wifi_wait.simps) simp
    with rec have "wifi_wait poll attempts s =
        s\<lparr>trace := trace s @ replicate (Suc n) (Delay 500)\<rparr>"
      by (simp add: prims emit_def)
    then show ?thesis by blast
  next
    case False
    then have "wifi_wait poll attempts s = s"
      by (subst wifi_wait.simps) auto
    then have "wifi_wait poll attempts s = s\<lparr>trace := trace s @ replicate 0 (Delay 500)\<rparr>"
      by simp
    then show ?thesis by blast
  qed
qed

lemma setupWiFi_trace:
  "\<exists>n. setupWiFi b s =
     s\<lparr>trace := trace s @ WifiBegin WIFI_SSID WIFI_PASSWORD # replicate n (Delay 500)\<rparr>"
proof -
  obtain n where
    "wifi_wait (wifi_poll b) 0 (emit (WifiBegin WIFI_SSID WIFI_PASSWORD) s) =
       (emit (WifiBegin WIFI_SSID WIFI_PASSWORD) s)
         \<lparr>trace := trace (emit (WifiBegin WIFI_SSID WIFI_PASSWORD) s) @ replicate n (Delay 500)\<rparr>"
    using wifi_wait_trace by blast
  then have "setupWiFi b s =
     s\<lparr>trace := trace s @ WifiBegin WIFI_SSID WIFI_PASSWORD # replicate n (Delay 500)\<rparr>"
    by (simp add: setupWiFi_def emit_def)
  then show ?thesis by blast
qed

lemma fields_setupWiFi:
  "mqttResetRequested (setupWiFi b s) = mqttResetRequested s"
  "session (setupWiFi b s) = session s"
  "humid (setupWiFi b s) = humid s" "tempC (setupWiFi b s) = tempC s"
  "pressure (setupWiFi b s) = pressure s" "bmeTime (setupWiFi b s) = bmeTime s"
  "oledTime (setupWiFi b s) = oledTime s" "mqttTime (setupWiFi b s) = mqttTime s"
  "wifiReconnectTime (setupWiFi b s) = wifiReconnectTime s"
  using setupWiFi_trace [of b s] by auto


lemma harmless_setupWiFi:
  "list_all harmless (trace (setupWiFi b s)) = list_all harmless (trace s)"
  using setupWiFi_trace [of b s] by (auto simp: list_all_iff)









subsection \<open>The state the loop starts from\<close>

lemma fresh_ops:
  "fresh (emit ev s) = (harmless ev \<and> fresh s)"
  "fresh (delay ms s) = fresh s"
  "fresh (display s) = fresh s"
  "fresh (paint ds s) = fresh s"
  "fresh (clearDisplay s) = fresh s"
  "fresh (s\<lparr>mqttResetRequested := x\<rparr>) = fresh s"
  "fresh (setupWiFi b s) = fresh s"
  "fresh (setBufferSize n s) = fresh s"
  by (auto simp add: fresh_def prims fields_setupWiFi harmless_setupWiFi)

lemma fresh_power_on: "fresh power_on"
  by (simp add: fresh_def power_on_def)

lemma fresh_initOled: "initOled b s = (Running, s') \<Longrightarrow> fresh s \<Longrightarrow> fresh s'"
  by (auto simp add: initOled_def Let_def fresh_ops split: if_splits)

lemma fresh_initBME: "initBME b s = (Running, s') \<Longrightarrow> fresh s \<Longrightarrow> fresh s'"
  by (auto simp add: initBME_def fresh_ops split: if_splits)

lemma fresh_reset_block: "reset_block b s = (Running, s') \<Longrightarrow> fresh s \<Longrightarrow> fresh s'"
  by (auto simp add: reset_block_def Let_def fresh_ops split: if_splits)

lemma fresh_show_ip: "fresh (show_ip b s) = fresh s"
  by (simp add: show_ip_def fresh_ops)

lemma fresh_setup_net: "setup_net b s = (Running, s') \<Longrightarrow> fresh s \<Longrightarrow> fresh s'"
  by (auto simp add: setup_net_def Let_def fresh_ops fresh_show_ip
      split: if_splits prod.splits outcome.splits dest!: fresh_reset_block)

lemma fresh_setup: "setup_fn b = (Running, s) \<Longrightarrow> fresh s"
  by (auto simp add: setup_fn_def Let_def fresh_ops fresh_power_on
      split: if_splits prod.splits outcome.splits
      dest!: fresh_initOled fresh_initBME fresh_setup_net)

lemma setup_plain:
  "fst (setup_fn (boot_with False ok)) = Running"
  by (simp add: setup_fn_def boot_with_def initOled_def initBME_def setup_net_def Let_def prims
      fields_setupWiFi power_on_def)

section \<open>The order of the calls on the client\<close>

lemma call_scan_append:
  "call_scan ph (xs @ ys) =
     (case call_scan ph xs of None \<Rightarrow> None | Some q \<Rightarrow> call_scan q ys)"
  by (induction xs arbitrary: ph) (auto split: option.splits)

lemma call_step_harmless: "harmless ev \<Longrightarrow> call_step Idle ev = Some Idle"
  by (cases ev) auto

lemma call_scan_harmless: "list_all harmless evs \<Longrightarrow> call_scan Idle evs = Some Idle"
  by (induction evs) (auto simp add: call_step_harmless)

lemma fresh_synced: "fresh s \<Longrightarrow> synced s"
  by (simp add: fresh_def synced_def call_scan_harmless)

lemma call_scan_edge_block: "call_scan Opened edge_block = Some Live"
  by (simp add: edge_block_def)

lemma synced_checkWiFi: "synced s \<Longrightarrow> synced (checkWiFi e s)"
  by (auto simp add: synced_def trace_checkWiFi session_checkWiFi call_scan_append)

lemma synced_loop_session: "synced s \<Longrightarrow> synced (loop_session e s)"
  by (auto simp add: synced_def trace_loop_session session_loop_session call_scan_append
      call_scan_edge_block)

lemma synced_loop_bme: "synced s \<Longrightarrow> synced (loop_bme e s)"
  by (auto simp add: synced_def trace_loop_bme session_loop_bme call_scan_append)

lemma call_step_neutral:
  "\<not> is_connect ev \<Longrightarrow> \<not> is_publish ev \<Longrightarrow> ph = Idle \<or> ph = Live \<Longrightarrow>
   call_step ph ev = Some ph"
  by (cases ev) auto

lemma call_scan_neutral:
  "list_all (\<lambda>ev. \<not> is_connect ev \<and> \<not> is_publish ev) evs \<Longrightarrow> ph = Idle \<or> ph = Live \<Longrightarrow>
   call_scan ph evs = Some ph"
  by (induction evs) (auto simp add: call_step_neutral)

lemma neutral_printBME:
  "list_all (\<lambda>ev. \<not> is_connect ev \<and> \<not> is_publish ev) (emitted printBME s)"
  by (simp add: emitted_printBME)

lemma synced_loop_oled: "synced s \<Longrightarrow> synced (loop_oled e s)"
  using call_scan_neutral [OF neutral_printBME, of Idle s]
    call_scan_neutral [OF neutral_printBME, of Live s]
  by (auto simp add: synced_def trace_loop_oled session_loop_oled call_scan_append)

lemma synced_loop_mqtt: "synced s \<Longrightarrow> synced (loop_mqtt e s)"
  by (auto simp add: synced_def trace_loop_mqtt session_loop_mqtt call_scan_append)

lemma synced_loop: "synced s \<Longrightarrow> synced (loop e s)"
  unfolding loop_def
  by (intro synced_loop_mqtt synced_loop_oled synced_loop_bme synced_loop_session
      synced_checkWiFi)

lemma synced_run: "synced s \<Longrightarrow> synced (run es s)"
  by (induction es arbitrary: s) (auto simp add: synced_loop)

lemma synced_calls_ok: "synced s \<Longrightarrow> calls_ok (trace s)"
  by (auto simp add: synced_def calls_ok_def)


lemma topics_distinct:
  "config_topic MQTT_DISCOVERY_PREFIX DEVICE_NAME ''temperature'' \<noteq> MQTT_STATE_TOPIC"
  "config_topic MQTT_DISCOVERY_PREFIX DEVICE_NAME ''humidity'' \<noteq> MQTT_STATE_TOPIC"
  "config_topic MQTT_DISCOVERY_PREFIX DEVICE_NAME ''pressure'' \<noteq> MQTT_STATE_TOPIC"
  "config_topic MQTT_DISCOVERY_PREFIX DEVICE_NAME ''temperature'' \<noteq> MQTT_AVAILABILITY_TOPIC"
  "config_topic MQTT_DISCOVERY_PREFIX DEVICE_NAME ''humidity'' \<noteq> MQTT_AVAILABILITY_TOPIC"
  "config_topic MQTT_DISCOVERY_PREFIX DEVICE_NAME ''pressure'' \<noteq> MQTT_AVAILABILITY_TOPIC"
  "config_topic MQTT_DISCOVERY_PREFIX DEVICE_NAME ''temperature''
     \<noteq> config_topic MQTT_DISCOVERY_PREFIX DEVICE_NAME ''humidity''"
  "config_topic MQTT_DISCOVERY_PREFIX DEVICE_NAME ''temperature''
     \<noteq> config_topic MQTT_DISCOVERY_PREFIX DEVICE_NAME ''pressure''"
  "config_topic MQTT_DISCOVERY_PREFIX DEVICE_NAME ''humidity''
     \<noteq> config_topic MQTT_DISCOVERY_PREFIX DEVICE_NAME ''pressure''"
  by (simp_all add: config_topic_def MQTT_DISCOVERY_PREFIX_def DEVICE_NAME_def
      MQTT_STATE_TOPIC_def MQTT_AVAILABILITY_TOPIC_def)

lemma count_along_scan:
  fixes owed :: "phase \<Rightarrow> nat"
  assumes step: "\<And>ph ev ph'. call_step ph ev = Some ph' \<Longrightarrow>
      (if A ev then 1 else 0) + owed ph' = (if accepted ev then 1 else 0) + owed ph"
  shows "call_scan ph tr = Some q \<Longrightarrow>
      length (filter A tr) + owed q = length (filter accepted tr) + owed ph"
proof (induction tr arbitrary: ph)
  case Nil
  then show ?case by simp
next
  case (Cons ev tr)
  from Cons.prems obtain ph' where st: "call_step ph ev = Some ph'"
    and rest: "call_scan ph' tr = Some q"
    by (auto split: option.splits)
  from Cons.IH [OF rest] step [OF st] show ?case
    by (auto split: if_splits)
qed

lemma owed_temperature:
  "call_step ph ev = Some ph' \<Longrightarrow>
   (if announces (config_topic MQTT_DISCOVERY_PREFIX DEVICE_NAME ''temperature'') ev
    then 1 else 0) + (if ph' = Opened \<or> ph' = Online then 1 else 0)
   = (if accepted ev then 1 else 0) + (if ph = Opened \<or> ph = Online then 1 else (0::nat))"
  using topics_distinct
  by (cases ev; cases ph) (auto split: if_splits)

lemma owed_humidity:
  "call_step ph ev = Some ph' \<Longrightarrow>
   (if announces (config_topic MQTT_DISCOVERY_PREFIX DEVICE_NAME ''humidity'') ev
    then 1 else 0) + (if ph' = Opened \<or> ph' = Online \<or> ph' = SentT then 1 else 0)
   = (if accepted ev then 1 else 0)
     + (if ph = Opened \<or> ph = Online \<or> ph = SentT then 1 else (0::nat))"
  using topics_distinct
  by (cases ev; cases ph) (auto split: if_splits)

lemma owed_pressure:
  "call_step ph ev = Some ph' \<Longrightarrow>
   (if announces (config_topic MQTT_DISCOVERY_PREFIX DEVICE_NAME ''pressure'') ev
    then 1 else 0)
     + (if ph' = Opened \<or> ph' = Online \<or> ph' = SentT \<or> ph' = SentH then 1 else 0)
   = (if accepted ev then 1 else 0)
     + (if ph = Opened \<or> ph = Online \<or> ph = SentT \<or> ph = SentH then 1 else (0::nat))"
  using topics_distinct
  by (cases ev; cases ph) (auto split: if_splits)

lemma calls_ok_counts:
  assumes "calls_ok tr"
  shows "length (filter (announces (config_topic MQTT_DISCOVERY_PREFIX DEVICE_NAME ''temperature'')) tr)
           = length (filter accepted tr)"
    and "length (filter (announces (config_topic MQTT_DISCOVERY_PREFIX DEVICE_NAME ''humidity'')) tr)
           = length (filter accepted tr)"
    and "length (filter (announces (config_topic MQTT_DISCOVERY_PREFIX DEVICE_NAME ''pressure'')) tr)
           = length (filter accepted tr)"
proof -
  from assms obtain q where q: "call_scan Idle tr = Some q" "q = Idle \<or> q = Live"
    by (auto simp add: calls_ok_def)
  show "length (filter (announces (config_topic MQTT_DISCOVERY_PREFIX DEVICE_NAME ''temperature'')) tr)
           = length (filter accepted tr)"
    using count_along_scan [where owed = "\<lambda>ph. if ph = Opened \<or> ph = Online then 1 else 0",
        OF owed_temperature q(1)] q(2)
    by auto
  show "length (filter (announces (config_topic MQTT_DISCOVERY_PREFIX DEVICE_NAME ''humidity'')) tr)
           = length (filter accepted tr)"
    using count_along_scan
      [where owed = "\<lambda>ph. if ph = Opened \<or> ph = Online \<or> ph = SentT then 1 else 0",
        OF owed_humidity q(1)] q(2)
    by auto
  show "length (filter (announces (config_topic MQTT_DISCOVERY_PREFIX DEVICE_NAME ''pressure'')) tr)
           = length (filter accepted tr)"
    using count_along_scan
      [where owed = "\<lambda>ph. if ph = Opened \<or> ph = Online \<or> ph = SentT \<or> ph = SentH then 1 else 0",
        OF owed_pressure q(1)] q(2)
    by auto
qed

subsection \<open>Fields after each stage, and runs\<close>

lemma fields_checkWiFi_more:
  "session (checkWiFi e s) = session s"
  "wifiReconnectTime (checkWiFi e s) =
     (if \<not> wifi_check e \<and> ms_wifi e - wifiReconnectTime s \<ge> wifiReconnectDelay
      then ms_wifi_set e else wifiReconnectTime s)"
  by (simp_all add: checkWiFi_def prims)

lemma fields_loop_session_more:
  "wifiReconnectTime (loop_session e s) = wifiReconnectTime s"
  by (simp add: loop_session_def mqttReconnect_def publishDiscovery_def prims)

lemma fields_loop_bme_more:
  "session (loop_bme e s) = session s"
  "wifiReconnectTime (loop_bme e s) = wifiReconnectTime s"
  by (simp_all add: loop_bme_def readBME_def prims)

lemma fields_loop_oled_more:
  "session (loop_oled e s) = session s"
  "wifiReconnectTime (loop_oled e s) = wifiReconnectTime s"
  "bmeTime (loop_oled e s) = bmeTime s"
  "oledTime (loop_oled e s) =
     (if ms_oled e - oledTime s \<ge> oledDelay \<or> oledTime s = 0 then ms_oled_set e else oledTime s)"
  by (simp_all add: loop_oled_def printBME_def prims)

lemma fields_loop_mqtt:
  "humid (loop_mqtt e s) = humid s" "tempC (loop_mqtt e s) = tempC s"
  "pressure (loop_mqtt e s) = pressure s" "bmeTime (loop_mqtt e s) = bmeTime s"
  "oledTime (loop_mqtt e s) = oledTime s"
  "wifiReconnectTime (loop_mqtt e s) = wifiReconnectTime s"
  "mqttTime (loop_mqtt e s) =
     (if ms_mqtt e - mqttTime s \<ge> mqttDelay \<or> mqttTime s = 0 then ms_mqtt_set e else mqttTime s)"
  "session (loop_mqtt e s) =
     (if ms_mqtt e - mqttTime s \<ge> mqttDelay \<or> mqttTime s = 0
      then session s \<and> alive_publish e else session s)"
  by (simp_all add: loop_mqtt_def publishSensorData_def prims)

lemmas stage_fields =
  fields_checkWiFi fields_checkWiFi_more
  fields_loop_session fields_loop_session_more session_loop_session
  fields_loop_bme fields_loop_bme_more
  fields_loop_oled fields_loop_oled_more
  fields_loop_mqtt

lemmas stage_emitted =
  emitted_loop emitted_checkWiFi emitted_loop_session emitted_loop_bme emitted_loop_oled
  emitted_printBME emitted_loop_mqtt

lemma trace_run: "trace (run es s) = trace s @ emitted (run es) s"
proof (induction es arbitrary: s)
  case Nil
  show ?case by (simp add: emitted_def)
next
  case (Cons e es)
  have "trace (run es (loop e s)) = trace (loop e s) @ emitted (run es) (loop e s)"
    by (rule Cons.IH)
  then have "trace (run (e # es) s) =
      trace s @ (emitted (loop e) s @ emitted (run es) (loop e s))"
    using trace_loop [of e s] by simp
  then show ?case by (rule trace_emitted)
qed

lemma emitted_run_Nil: "emitted (run []) s = []"
  by (simp add: emitted_def)

lemma emitted_run_Cons:
  "emitted (run (e # es)) s = emitted (loop e) s @ emitted (run es) (loop e s)"
proof -
  have "trace (run (e # es) s) = trace s @ (emitted (loop e) s @ emitted (run es) (loop e s))"
    using trace_run [of es "loop e s"] trace_loop [of e s] by simp
  then show ?thesis by (rule emitted_append)
qed

lemma fresh_fields:
  "fresh s \<Longrightarrow> humid s = Fin 0" "fresh s \<Longrightarrow> tempC s = Fin 0" "fresh s \<Longrightarrow> pressure s = Fin 0"
  "fresh s \<Longrightarrow> oledTime s = 0" "fresh s \<Longrightarrow> bmeTime s = 0" "fresh s \<Longrightarrow> mqttTime s = 0"
  "fresh s \<Longrightarrow> wifiReconnectTime s = 0" "fresh s \<Longrightarrow> session s = False"
  by (simp_all add: fresh_def)

lemma fresh_plain: "fresh (snd (setup_fn (boot_with False ok)))"
  using setup_plain [of ok] by (intro fresh_setup) (simp add: prod_eq_iff)

text \<open>
  The calls of the loop on the client, from the state in which \<^verbatim>\<open>setup()\<close> hands
  over and whatever the environment does: no publish is called before a connect is
  accepted; an accepted connect is followed at once by the call that publishes the
  retained \<^verbatim>\<open>online\<close> and by one call for each of the three config topics, with a
  non-empty retained payload; no config topic is published to anywhere else; a state
  publish is called only after these four. So for each config topic the publisher makes
  exactly as many such calls as connects have been accepted. What the client does with
  the calls is another matter.
\<close>

lemma discovery_calls_once_per_session:
  assumes "setup_fn b = (Running, s)"
  shows "calls_ok (trace (run es s))"
    and "length (filter (announces (config_topic MQTT_DISCOVERY_PREFIX DEVICE_NAME ''temperature''))
        (trace (run es s))) = length (filter accepted (trace (run es s)))"
    and "length (filter (announces (config_topic MQTT_DISCOVERY_PREFIX DEVICE_NAME ''humidity''))
        (trace (run es s))) = length (filter accepted (trace (run es s)))"
    and "length (filter (announces (config_topic MQTT_DISCOVERY_PREFIX DEVICE_NAME ''pressure''))
        (trace (run es s))) = length (filter accepted (trace (run es s)))"
proof -
  from assms have "synced s"
    by (intro fresh_synced fresh_setup)
  then show ok: "calls_ok (trace (run es s))"
    by (intro synced_calls_ok synced_run)
  from calls_ok_counts [OF ok]
  show "length (filter (announces (config_topic MQTT_DISCOVERY_PREFIX DEVICE_NAME ''temperature''))
        (trace (run es s))) = length (filter accepted (trace (run es s)))"
    and "length (filter (announces (config_topic MQTT_DISCOVERY_PREFIX DEVICE_NAME ''humidity''))
        (trace (run es s))) = length (filter accepted (trace (run es s)))"
    and "length (filter (announces (config_topic MQTT_DISCOVERY_PREFIX DEVICE_NAME ''pressure''))
        (trace (run es s))) = length (filter accepted (trace (run es s)))"
    by simp_all
qed

subsection \<open>A boot without reset\<close>

lemma harmless_not_accepted: "list_all harmless tr \<Longrightarrow> filter accepted tr = []"
proof (induction tr)
  case Nil
  then show ?case by simp
next
  case (Cons ev tr)
  then show ?case by (cases ev) auto
qed

lemma setup_plain_eq:
  "setup_fn (boot_with False ok) = (Running, snd (setup_fn (boot_with False ok)))"
  using setup_plain [of ok] by (simp add: prod_eq_iff)

lemmas plain_fields = fresh_fields [OF fresh_plain]

section \<open>The state publisher and invalid readings\<close>

text \<open>
  C1, evaluated where it fails. First pass after a boot without reset, link up, broker
  accepting, the sensor giving a NaN humidity: the sample deadline fires and stores the
  NaN, the renderer treats the reading as invalid and paints the banner, and the state
  deadline fires in the same pass. \<^verbatim>\<open>publishSensorData\<close> tests only
  \<^verbatim>\<open>mqttClient.connected()\<close>: the state is published all the same, with the NaN in it.
\<close>

theorem invalid_reading_published:
  "filter is_frame
     (emitted (loop (pass 7000 True NaN (Fin 23.45) (Fin 101327)))
        (snd (setup_fn (boot_with False True))))
     = [Frame [SetCursor 0 0, SetTextSize 1, Println ''BME Error'']]
   \<and> filter (announces MQTT_STATE_TOPIC)
     (emitted (loop (pass 7000 True NaN (Fin 23.45) (Fin 101327)))
        (snd (setup_fn (boot_with False True))))
     = [Publish MQTT_STATE_TOPIC
          (Doc (JObj [(''temperature'', JNum (Fin 23.5)), (''humidity'', JNum NaN),
                      (''pressure'', JNum (Fin 1013.3))])) True]"
  using topics_distinct
  by (simp add: stage_emitted stage_fields plain_fields pass_def edge_block_def state_doc_def
      round_half_away_def binary32 bmeDelay_def oledDelay_def mqttDelay_def
      MQTT_STATE_TOPIC_def MQTT_AVAILABILITY_TOPIC_def)


section \<open>Reconnecting\<close>

text \<open>
  C5, as amended. A pass of the loop makes at most one connect attempt; it makes exactly
  one when the link is up (at the check in \<^verbatim>\<open>loop\<close> and at the one in
  \<^verbatim>\<open>mqttReconnect\<close>) and the client has no live session, whatever the clock reads and
  however recent the last attempt: no cooldown stands between two attempts. The 30000 ms
  cooldown limits the re-association of the link only: \<^verbatim>\<open>WiFi.begin\<close> is called in a
  pass exactly when the link is down and \<^verbatim>\<open>millis() - wifiReconnectTime >= 30000\<close>.
\<close>

theorem reconnect_attempts:
  "length (filter is_connect (emitted (loop e) s)) =
     (if wifi_loop e \<and> wifi_reconnect e \<and> \<not> (session s \<and> alive_loop e) then 1 else 0)
   \<and> filter is_wifi_begin (emitted (loop e) s) =
     (if \<not> wifi_check e \<and> ms_wifi e - wifiReconnectTime s \<ge> 30000
      then [WifiBegin WIFI_SSID WIFI_PASSWORD] else [])"
  by (auto simp add: stage_emitted stage_fields edge_block_def wifiReconnectDelay_def)

text \<open>
  C5 as stated fails. Three passes after a boot without reset, with the link up and a
  broker that rejects, in which \<^verbatim>\<open>millis()\<close> reads 5000, 5010 and 5020: each pass
  makes a connect attempt. The second and the third attempt both lie between a clock
  reading of 5000 and a clock reading of 5020: they are at most 20 ms apart, not 30000.
\<close>

theorem reconnect_attempts_counterexample:
  "filter (\<lambda>ev. is_connect ev \<or> is_clock ev)
     (emitted (run [pass 5000 False (Fin 41.2) (Fin 23.45) (Fin 101327),
                    pass 5010 False (Fin 41.2) (Fin 23.45) (Fin 101327),
                    pass 5020 False (Fin 41.2) (Fin 23.45) (Fin 101327)])
        (snd (setup_fn (boot_with False True))))
   = [Connect DEVICE_NAME MQTT_USER MQTT_PASSWORD
        (Some (MQTT_AVAILABILITY_TOPIC, 0, True, ''offline'')) False,
      ClockRead 5000, ClockRead 5000, ClockRead 5000, ClockRead 5000, ClockRead 5000,
      ClockRead 5000,
      Connect DEVICE_NAME MQTT_USER MQTT_PASSWORD
        (Some (MQTT_AVAILABILITY_TOPIC, 0, True, ''offline'')) False,
      ClockRead 5010, ClockRead 5010, ClockRead 5010,
      Connect DEVICE_NAME MQTT_USER MQTT_PASSWORD
        (Some (MQTT_AVAILABILITY_TOPIC, 0, True, ''offline'')) False,
      ClockRead 5020, ClockRead 5020, ClockRead 5020]"
  by (simp add: emitted_run_Cons emitted_run_Nil stage_emitted stage_fields plain_fields
      loop_def pass_def edge_block_def bmeDelay_def oledDelay_def mqttDelay_def)

section \<open>Sampling before rendering\<close>

lemma fields_readBME:
  "humid (readBME e s) = bme_humidity e" "tempC (readBME e s) = bme_temperature e"
  "pressure (readBME e s) = fdiv (bme_pressure e) 100"
  by (simp_all add: readBME_def)

text \<open>
  C10. In every pass of the loop the sensor deadline is checked before the display
  deadline: when the display deadline fires, the one frame of the pass is what
  \<^verbatim>\<open>printBME\<close> paints for the reading held after the sample stage, which is the
  sample of this pass when the sensor deadline fired and the reading held before
  otherwise. In the first pass after \<^verbatim>\<open>setup()\<close> has returned both deadlines are
  still zero and fire: the first frame shows the values the sensor gave in that pass
  (pressure divided by 100), or the banner when humidity or temperature is NaN, never
  the zeros the three variables start with.
\<close>

theorem sample_before_render:
  assumes "setup_fn b = (Running, s)"
  shows "filter is_frame (emitted (loop e) u) =
     (if ms_oled e - oledTime u \<ge> oledDelay \<or> oledTime u = 0
      then filter is_frame
             (emitted printBME
                (if ms_bme e - bmeTime u \<ge> bmeDelay \<or> bmeTime u = 0 then readBME e u else u))
      else [])
   \<and> filter is_frame (emitted (loop e) s) =
     [Frame
        (if isnan (bme_humidity e) \<or> isnan (bme_temperature e)
         then [SetCursor 0 0, SetTextSize 1, Println ''BME Error'']
         else [SetCursor 0 0,
               SetTextSize 1, Println ''Humid:'',
               SetTextSize 2, PrintNum (bme_humidity e) 1, Println ''%'',
               PrintlnEmpty,
               SetTextSize 1, Println ''Temp:'',
               SetTextSize 2, PrintNum (bme_temperature e) 1, Println ''C'',
               PrintlnEmpty,
               SetTextSize 1, Println ''Press:'',
               SetTextSize 2, PrintNum (fdiv (bme_pressure e) 100) 0,
               SetTextSize 1, Println ''hPa''])]"
proof -
  have general: "filter is_frame (emitted (loop e) u) =
     (if ms_oled e - oledTime u \<ge> oledDelay \<or> oledTime u = 0
      then filter is_frame
             (emitted printBME
                (if ms_bme e - bmeTime u \<ge> bmeDelay \<or> bmeTime u = 0 then readBME e u else u))
      else [])"
    by (simp add: stage_emitted stage_fields fields_readBME edge_block_def)
  from assms have "fresh s" by (rule fresh_setup)
  then have first: "filter is_frame (emitted (loop e) s) =
     [Frame
        (if isnan (bme_humidity e) \<or> isnan (bme_temperature e)
         then [SetCursor 0 0, SetTextSize 1, Println ''BME Error'']
         else [SetCursor 0 0,
               SetTextSize 1, Println ''Humid:'',
               SetTextSize 2, PrintNum (bme_humidity e) 1, Println ''%'',
               PrintlnEmpty,
               SetTextSize 1, Println ''Temp:'',
               SetTextSize 2, PrintNum (bme_temperature e) 1, Println ''C'',
               PrintlnEmpty,
               SetTextSize 1, Println ''Press:'',
               SetTextSize 2, PrintNum (fdiv (bme_pressure e) 100) 0,
               SetTextSize 1, Println ''hPa''])]"
    by (simp add: stage_emitted stage_fields fresh_fields edge_block_def)
  from general first show ?thesis by (rule conjI)
qed

text \<open>
  C10 at a boot without reset: the first frame shows the 41.2 %, 23.45 C and 1013.27 hPa
  of the first sample.
\<close>

theorem sample_before_render_witness:
  "setup_fn (boot_with False True) = (Running, snd (setup_fn (boot_with False True)))
   \<and> filter is_frame
       (emitted (loop (pass 7000 True (Fin 41.2) (Fin 23.45) (Fin 101327)))
          (snd (setup_fn (boot_with False True)))) =
     [Frame
        [SetCursor 0 0,
         SetTextSize 1, Println ''Humid:'',
         SetTextSize 2, PrintNum (Fin 41.2) 1, Println ''%'',
         PrintlnEmpty,
         SetTextSize 1, Println ''Temp:'',
         SetTextSize 2, PrintNum (Fin 23.45) 1, Println ''C'',
         PrintlnEmpty,
         SetTextSize 1, Println ''Press:'',
         SetTextSize 2, PrintNum (Fin 1013.27) 0,
         SetTextSize 1, Println ''hPa'']]"
proof -
  have h: "setup_fn (boot_with False True) = (Running, snd (setup_fn (boot_with False True)))"
    by (rule setup_plain_eq)
  from sample_before_render [OF h,
      where e = "pass 7000 True (Fin 41.2) (Fin 23.45) (Fin 101327)" and u = power_on,
      THEN conjunct2]
  have "filter is_frame
       (emitted (loop (pass 7000 True (Fin 41.2) (Fin 23.45) (Fin 101327)))
          (snd (setup_fn (boot_with False True)))) =
     [Frame
        [SetCursor 0 0,
         SetTextSize 1, Println ''Humid:'',
         SetTextSize 2, PrintNum (Fin 41.2) 1, Println ''%'',
         PrintlnEmpty,
         SetTextSize 1, Println ''Temp:'',
         SetTextSize 2, PrintNum (Fin 23.45) 1, Println ''C'',
         PrintlnEmpty,
         SetTextSize 1, Println ''Press:'',
         SetTextSize 2, PrintNum (Fin 1013.27) 0,
         SetTextSize 1, Println ''hPa'']]"
    by (simp add: pass_def)
  with h show ?thesis by (rule conjI)
qed

section \<open>Discovery payloads\<close>

lemma emitted_publishDiscovery:
  "emitted publishDiscovery s =
     (if mqttDiscoverySent s then []
      else [Publish (config_topic MQTT_DISCOVERY_PREFIX DEVICE_NAME ''temperature'')
              (Doc (temperature_doc DEVICE_NAME DEVICE_FRIENDLY_NAME)) True,
            Publish (config_topic MQTT_DISCOVERY_PREFIX DEVICE_NAME ''humidity'')
              (Doc (humidity_doc DEVICE_NAME DEVICE_FRIENDLY_NAME)) True,
            Publish (config_topic MQTT_DISCOVERY_PREFIX DEVICE_NAME ''pressure'')
              (Doc (pressure_doc DEVICE_NAME DEVICE_FRIENDLY_NAME)) True])"
  by (simp add: emitted_def publishDiscovery_def prims)

lemma config_topic_literal:
  "config_topic MQTT_DISCOVERY_PREFIX DEVICE_NAME ''temperature''
     = ''homeassistant/sensor/pc_xiaoc3_weather/temperature/config''"
  "config_topic MQTT_DISCOVERY_PREFIX DEVICE_NAME ''humidity''
     = ''homeassistant/sensor/pc_xiaoc3_weather/humidity/config''"
  "config_topic MQTT_DISCOVERY_PREFIX DEVICE_NAME ''pressure''
     = ''homeassistant/sensor/pc_xiaoc3_weather/pressure/config''"
  by (simp_all add: config_topic_def MQTT_DISCOVERY_PREFIX_def DEVICE_NAME_def)

text \<open>
  C7, as amended. Unless the latch is set, \<^verbatim>\<open>publishDiscovery\<close> publishes three
  retained documents, to the config topics of \<^verbatim>\<open>temperature\<close>, \<^verbatim>\<open>humidity\<close> and
  \<^verbatim>\<open>pressure\<close>. Each is an object with exactly these members: \<^verbatim>\<open>device\<close> (an
  object with the identifiers, name, model and manufacturer of the device), \<^verbatim>\<open>name\<close>,
  \<^verbatim>\<open>unique_id\<close>, \<^verbatim>\<open>state_topic\<close> (the state topic), \<^verbatim>\<open>availability_topic\<close>,
  \<^verbatim>\<open>payload_available\<close> (\<^verbatim>\<open>online\<close>), \<^verbatim>\<open>payload_not_available\<close>
  (\<^verbatim>\<open>offline\<close>), \<^verbatim>\<open>value_template\<close> (reading the sub-sensor's field of the state
  document), \<^verbatim>\<open>unit_of_measurement\<close>, \<^verbatim>\<open>device_class\<close> and \<^verbatim>\<open>state_class\<close>
  (\<^verbatim>\<open>measurement\<close>). The \<^verbatim>\<open>unique_id\<close> is the fixed text \<^verbatim>\<open>xiao_weather_\<close>
  followed by the sub-sensor's key; it is not built from the node id.
\<close>

theorem discovery_payloads:
  "emitted publishDiscovery s =
     (if mqttDiscoverySent s then []
      else map (\<lambda>(key, name, unit).
             Publish (''homeassistant/sensor/pc_xiaoc3_weather/'' @ key @ ''/config'')
               (Doc (JObj [
                  (''device'', JObj [
                     (''identifiers'', JArr [JStr DEVICE_NAME]),
                     (''name'', JStr DEVICE_FRIENDLY_NAME),
                     (''model'', JStr ''XIAO ESP32-C3 + BME280''),
                     (''manufacturer'', JStr ''Seeed Studio'')]),
                  (''name'', JStr name),
                  (''unique_id'', JStr (''xiao_weather_'' @ key)),
                  (''state_topic'', JStr MQTT_STATE_TOPIC),
                  (''availability_topic'', JStr MQTT_AVAILABILITY_TOPIC),
                  (''payload_available'', JStr ''online''),
                  (''payload_not_available'', JStr ''offline''),
                  (''value_template'', JStr (''{{ value_json.'' @ key @ '' }}'')),
                  (''unit_of_measurement'', JStr unit),
                  (''device_class'', JStr key),
                  (''state_class'', JStr ''measurement'')]))
               True)
           [(''temperature'', ''Temperature'', degree_C),
            (''humidity'', ''Humidity'', ''%''),
            (''pressure'', ''Pressure'', ''hPa'')])"
  by (simp add: emitted_publishDiscovery config_topic_literal temperature_doc_def
      humidity_doc_def pressure_doc_def discovery_doc_def)

text \<open>
  C7 as stated fails in one member. The node id is \<^verbatim>\<open>pc_xiaoc3_weather\<close>; the
  \<^verbatim>\<open>unique_id\<close> of the temperature document is \<^verbatim>\<open>xiao_weather_temperature\<close>, the
  same for any other node id the document is built for, and the node id is no part of it.
\<close>

theorem discovery_payloads_counterexample:
  "DEVICE_NAME = ''pc_xiaoc3_weather''
   \<and> member (temperature_doc ''pc_xiaoc3_weather'' DEVICE_FRIENDLY_NAME) ''unique_id''
       = Some (JStr ''xiao_weather_temperature'')
   \<and> member (temperature_doc ''another_node'' DEVICE_FRIENDLY_NAME) ''unique_id''
       = Some (JStr ''xiao_weather_temperature'')
   \<and> \<not> sublist ''pc_xiaoc3_weather'' ''xiao_weather_temperature''"
  by (simp add: DEVICE_NAME_def temperature_doc_def discovery_doc_def member_def
      sublist_Cons_right)

section \<open>What reaches the broker\<close>

subsection \<open>The size of the packets\<close>

text \<open>
  The text of a state document with a NaN channel, and the sizes of the packets of an
  accepted connect against the 512 bytes \<^verbatim>\<open>setup()\<close> gives the client: the
  \<^verbatim>\<open>online\<close> packet takes 43 bytes, the three discovery packets 558, 541 and 543.
\<close>

lemma digits_numeral:
  "digits (numeral k) n = digits (pred_numeral k) (n div 10) @ [''0123456789'' ! (n mod 10)]"
  by (subst numeral_eq_Suc) (rule digits.simps)

lemmas json_text = quoted_def escape_def unsigned_text_def fraction_def decimal_def
  digits_numeral round_half_away_def

lemma state_text_example:
  "serializeJson (JObj [(''temperature'', JNum (Fin 23.5)), (''humidity'', JNum NaN),
                      (''pressure'', JNum (Fin 1013.3))])
   = [CHR ''{'', CHR 0x22] @ ''temperature'' @ [CHR 0x22] @ '':23.5,''
     @ [CHR 0x22] @ ''humidity'' @ [CHR 0x22] @ '':null,''
     @ [CHR 0x22] @ ''pressure'' @ [CHR 0x22] @ '':1013.3}''"
  by (simp add: json_text)

lemma discovery_text_length:
  "length (serializeJson (temperature_doc DEVICE_NAME DEVICE_FRIENDLY_NAME)) = 494"
  "length (serializeJson (humidity_doc DEVICE_NAME DEVICE_FRIENDLY_NAME)) = 480"
  "length (serializeJson (pressure_doc DEVICE_NAME DEVICE_FRIENDLY_NAME)) = 482"
  by (simp_all add: temperature_doc_def humidity_doc_def pressure_doc_def discovery_doc_def
      DEVICE_NAME_def DEVICE_FRIENDLY_NAME_def MQTT_STATE_TOPIC_def MQTT_AVAILABILITY_TOPIC_def
      degree_C_def quoted_def escape_def)

lemma config_topic_length:
  "length (config_topic MQTT_DISCOVERY_PREFIX DEVICE_NAME ''temperature'') = 57"
  "length (config_topic MQTT_DISCOVERY_PREFIX DEVICE_NAME ''humidity'') = 54"
  "length (config_topic MQTT_DISCOVERY_PREFIX DEVICE_NAME ''pressure'') = 54"
  by (simp_all add: config_topic_def MQTT_DISCOVERY_PREFIX_def DEVICE_NAME_def)

lemma discovery_packet_size:
  "packet_size 512 (config_topic MQTT_DISCOVERY_PREFIX DEVICE_NAME ''temperature'')
     (Doc (temperature_doc DEVICE_NAME DEVICE_FRIENDLY_NAME)) = 558"
  "packet_size 512 (config_topic MQTT_DISCOVERY_PREFIX DEVICE_NAME ''humidity'')
     (Doc (humidity_doc DEVICE_NAME DEVICE_FRIENDLY_NAME)) = 541"
  "packet_size 512 (config_topic MQTT_DISCOVERY_PREFIX DEVICE_NAME ''pressure'')
     (Doc (pressure_doc DEVICE_NAME DEVICE_FRIENDLY_NAME)) = 543"
  by (simp_all add: packet_size_def discovery_text_length config_topic_length)

lemma online_packet_size:
  "packet_size 512 MQTT_AVAILABILITY_TOPIC (Raw ''online'') = 43"
  by (simp add: packet_size_def MQTT_AVAILABILITY_TOPIC_def)

subsection \<open>What the client writes\<close>

lemma buffer_stages:
  "bufferSize (checkWiFi e s) = bufferSize s"
  "bufferSize (loop_session e s) = bufferSize s"
  "bufferSize (loop_bme e s) = bufferSize s"
  "bufferSize (loop_oled e s) = bufferSize s"
  "bufferSize (loop_mqtt e s) = bufferSize s"
  by (simp_all add: checkWiFi_def loop_session_def mqttReconnect_def publishDiscovery_def
      loop_bme_def readBME_def loop_oled_def printBME_def loop_mqtt_def publishSensorData_def
      prims)

lemma wire_quiet_stages:
  "wire (checkWiFi e s) = wire s"
  "wire (loop_bme e s) = wire s"
  "wire (loop_oled e s) = wire s"
  by (simp_all add: checkWiFi_def loop_bme_def readBME_def loop_oled_def printBME_def prims)

lemma wire_loop_session:
  "bufferSize s = 512 \<Longrightarrow>
   wire (loop_session e s) = wire s @
     (if wifi_loop e \<and> \<not> (session s \<and> alive_loop e) \<and> wifi_reconnect e \<and> accept e
      then [(MQTT_AVAILABILITY_TOPIC, Raw ''online'', True)] else [])"
  by (simp add: loop_session_def mqttReconnect_def publishDiscovery_def wire_publish
      discovery_packet_size online_packet_size prims)

lemma wire_loop_mqtt:
  "wire (loop_mqtt e s) = wire s @
     (if (ms_mqtt e - mqttTime s \<ge> mqttDelay \<or> mqttTime s = 0)
         \<and> session s \<and> alive_publish e
         \<and> \<not> bufferSize s < packet_size (bufferSize s) MQTT_STATE_TOPIC (Doc (state_doc s))
      then [(MQTT_STATE_TOPIC, Doc (state_doc s), True)] else [])"
  by (auto simp add: loop_mqtt_def publishSensorData_def wire_publish state_doc_def prims)

lemma buffer_loop: "bufferSize (loop e s) = bufferSize s"
  by (simp add: loop_def buffer_stages)

lemma buffer_run: "bufferSize (run es s) = bufferSize s"
  by (induction es arbitrary: s) (simp_all add: buffer_loop)

lemma received_loop:
  assumes "bufferSize s = 512"
    and "topic \<noteq> MQTT_AVAILABILITY_TOPIC" and "topic \<noteq> MQTT_STATE_TOPIC"
  shows "received topic (loop e s) = received topic s"
proof -
  have "bufferSize (checkWiFi e s) = 512"
    using assms(1) by (simp add: buffer_stages)
  then show ?thesis
    using assms(2,3)
    by (simp add: received_def loop_def wire_loop_mqtt wire_quiet_stages wire_loop_session)
qed

lemma received_run:
  assumes "bufferSize s = 512"
    and "topic \<noteq> MQTT_AVAILABILITY_TOPIC" and "topic \<noteq> MQTT_STATE_TOPIC"
  shows "received topic (run es s) = received topic s"
  using assms(1)
proof (induction es arbitrary: s)
  case Nil
  show ?case by simp
next
  case (Cons e es)
  have "bufferSize (loop e s) = 512"
    using Cons.prems by (simp add: buffer_loop)
  then have "received topic (run es (loop e s)) = received topic (loop e s)"
    by (rule Cons.IH)
  with Cons.prems assms(2,3) show ?case
    by (simp add: received_loop)
qed

lemma wire_setupWiFi:
  "wire (setupWiFi b s) = wire s" "bufferSize (setupWiFi b s) = bufferSize s"
  using setupWiFi_trace [of b s] by auto

lemma wire_initOled: "initOled b s = (Running, s') \<Longrightarrow> wire s' = wire s"
  by (auto simp add: initOled_def prims split: if_splits)

lemma wire_initBME: "initBME b s = (Running, s') \<Longrightarrow> wire s' = wire s"
  by (auto simp add: initBME_def prims split: if_splits)

lemma wire_reset_block:
  "reset_block b s = (Running, s') \<Longrightarrow> wire s' = wire s \<and> bufferSize s' = bufferSize s"
  by (auto simp add: reset_block_def prims split: if_splits)

lemma wire_show_ip: "wire (show_ip b s) = wire s" "bufferSize (show_ip b s) = bufferSize s"
  by (simp_all add: show_ip_def prims)

lemma wire_setup_net:
  "setup_net b s = (Running, s') \<Longrightarrow> wire s' = wire s \<and> bufferSize s' = 512"
  by (auto simp add: setup_net_def wire_show_ip wire_setupWiFi prims
      split: if_splits prod.splits outcome.splits dest!: wire_reset_block)

lemma wire_setup: "setup_fn b = (Running, s) \<Longrightarrow> wire s = [] \<and> bufferSize s = 512"
  by (auto simp add: setup_fn_def power_on_def prims
      split: if_splits prod.splits outcome.splits
      dest!: wire_initOled wire_initBME wire_setup_net)

lemma wire_loop:
  "bufferSize s = 512 \<Longrightarrow>
   wire (loop e s) = wire s @
     (if wifi_loop e \<and> \<not> (session s \<and> alive_loop e) \<and> wifi_reconnect e \<and> accept e
      then [(MQTT_AVAILABILITY_TOPIC, Raw ''online'', True)] else [])
     @ (if (ms_mqtt e - mqttTime s \<ge> mqttDelay \<or> mqttTime s = 0)
           \<and> session (loop_session e s) \<and> alive_publish e
           \<and> \<not> 512 < packet_size 512 MQTT_STATE_TOPIC (Doc (state_doc (loop_bme e s)))
        then [(MQTT_STATE_TOPIC, Doc (state_doc (loop_bme e s)), True)] else [])"
  by (simp add: loop_def wire_loop_mqtt wire_quiet_stages wire_loop_session buffer_stages
      stage_fields state_doc_def)

lemma plain_wire:
  "wire (snd (setup_fn (boot_with False ok))) = []"
  "bufferSize (snd (setup_fn (boot_with False ok))) = 512"
  using wire_setup [OF setup_plain_eq, of ok] by simp_all

lemma wire_two_passes:
  assumes "bufferSize s = 512"
  shows "wire (run [e1, e2] s) = wire s @
     (if wifi_loop e1 \<and> \<not> (session s \<and> alive_loop e1) \<and> wifi_reconnect e1 \<and> accept e1
      then [(MQTT_AVAILABILITY_TOPIC, Raw ''online'', True)] else [])
     @ (if (ms_mqtt e1 - mqttTime s \<ge> mqttDelay \<or> mqttTime s = 0)
           \<and> session (loop_session e1 s) \<and> alive_publish e1
           \<and> \<not> 512 < packet_size 512 MQTT_STATE_TOPIC (Doc (state_doc (loop_bme e1 s)))
        then [(MQTT_STATE_TOPIC, Doc (state_doc (loop_bme e1 s)), True)] else [])
     @ (if wifi_loop e2 \<and> \<not> (session (loop e1 s) \<and> alive_loop e2) \<and> wifi_reconnect e2
           \<and> accept e2
        then [(MQTT_AVAILABILITY_TOPIC, Raw ''online'', True)] else [])
     @ (if (ms_mqtt e2 - mqttTime (loop e1 s) \<ge> mqttDelay \<or> mqttTime (loop e1 s) = 0)
           \<and> session (loop_session e2 (loop e1 s)) \<and> alive_publish e2
           \<and> \<not> 512 < packet_size 512 MQTT_STATE_TOPIC
                 (Doc (state_doc (loop_bme e2 (loop e1 s))))
        then [(MQTT_STATE_TOPIC, Doc (state_doc (loop_bme e2 (loop e1 s))), True)] else [])"
proof -
  have b: "bufferSize (loop e1 s) = 512"
    using assms by (simp add: buffer_loop)
  show ?thesis
    unfolding run.simps wire_loop [OF b] wire_loop [OF assms] by simp
qed

text \<open>
  C3, evaluated on the wire. From the state in which \<^verbatim>\<open>setup()\<close> hands over, and
  whatever the environment does in any number of passes of the loop: for each of the
  three config topics the publisher calls \<^verbatim>\<open>publish\<close> exactly once per accepted
  connect, and the broker receives none of these publishes. \<^verbatim>\<open>setup()\<close> sets the
  client's buffer to 512 bytes (\<^verbatim>\<open>// Increase buffer for discovery messages\<close>); the
  three discovery packets take 558, 541 and 543 bytes, the client refuses each of
  them, and \<^verbatim>\<open>publishDiscovery\<close> does not look at the result.
\<close>

theorem discovery_not_received:
  assumes "setup_fn b = (Running, s)"
  shows "received ''homeassistant/sensor/pc_xiaoc3_weather/temperature/config'' (run es s) = []
   \<and> received ''homeassistant/sensor/pc_xiaoc3_weather/humidity/config'' (run es s) = []
   \<and> received ''homeassistant/sensor/pc_xiaoc3_weather/pressure/config'' (run es s) = []
   \<and> length (filter (announces ''homeassistant/sensor/pc_xiaoc3_weather/temperature/config'')
        (trace (run es s))) = length (filter accepted (trace (run es s)))
   \<and> length (filter (announces ''homeassistant/sensor/pc_xiaoc3_weather/humidity/config'')
        (trace (run es s))) = length (filter accepted (trace (run es s)))
   \<and> length (filter (announces ''homeassistant/sensor/pc_xiaoc3_weather/pressure/config'')
        (trace (run es s))) = length (filter accepted (trace (run es s)))"
proof -
  from assms have start: "wire s = []" "bufferSize s = 512"
    by (simp_all add: wire_setup)
  have none: "received topic (run es s) = []"
    if "topic \<noteq> MQTT_AVAILABILITY_TOPIC" and "topic \<noteq> MQTT_STATE_TOPIC" for topic
    using received_run [OF start(2) that, of es] start(1) by (simp add: received_def)
  have t: "received ''homeassistant/sensor/pc_xiaoc3_weather/temperature/config'' (run es s) = []"
    by (rule none) (simp_all add: MQTT_AVAILABILITY_TOPIC_def MQTT_STATE_TOPIC_def)
  have h: "received ''homeassistant/sensor/pc_xiaoc3_weather/humidity/config'' (run es s) = []"
    by (rule none) (simp_all add: MQTT_AVAILABILITY_TOPIC_def MQTT_STATE_TOPIC_def)
  have p: "received ''homeassistant/sensor/pc_xiaoc3_weather/pressure/config'' (run es s) = []"
    by (rule none) (simp_all add: MQTT_AVAILABILITY_TOPIC_def MQTT_STATE_TOPIC_def)
  from t h p discovery_calls_once_per_session(2-4) [OF assms, of es] show ?thesis
    by (simp only: config_topic_literal simp_thms)
qed

text \<open>
  C3 at a boot without reset followed by two passes, ten seconds apart, with the link
  up and the broker accepting: one connect is accepted, \<^verbatim>\<open>publish\<close> is called once
  for the temperature config topic, and what the broker receives is the retained
  \<^verbatim>\<open>online\<close> and the two states; no config publish is among them.
\<close>

theorem discovery_not_received_witness:
  "setup_fn (boot_with False True) = (Running, snd (setup_fn (boot_with False True)))
   \<and> length (filter accepted (trace (run
        [pass 7000 True (Fin 41.25) (Fin 23.5) (Fin 101325),
         pass 17000 True (Fin 41.25) (Fin 23.5) (Fin 101325)]
        (snd (setup_fn (boot_with False True)))))) = 1
   \<and> length (filter (announces ''homeassistant/sensor/pc_xiaoc3_weather/temperature/config'')
        (trace (run
          [pass 7000 True (Fin 41.25) (Fin 23.5) (Fin 101325),
           pass 17000 True (Fin 41.25) (Fin 23.5) (Fin 101325)]
          (snd (setup_fn (boot_with False True)))))) = 1
   \<and> received ''homeassistant/sensor/pc_xiaoc3_weather/temperature/config'' (run
        [pass 7000 True (Fin 41.25) (Fin 23.5) (Fin 101325),
         pass 17000 True (Fin 41.25) (Fin 23.5) (Fin 101325)]
        (snd (setup_fn (boot_with False True)))) = []
   \<and> wire (run
        [pass 7000 True (Fin 41.25) (Fin 23.5) (Fin 101325),
         pass 17000 True (Fin 41.25) (Fin 23.5) (Fin 101325)]
        (snd (setup_fn (boot_with False True)))) =
     [(''pc_xiaoc3_weather/availability'', Raw ''online'', True),
      (''pc_xiaoc3_weather/state'',
       Doc (JObj [(''temperature'', JNum (Fin 23.5)), (''humidity'', JNum (Fin 41.3)),
                  (''pressure'', JNum (Fin 1013.3))]), True),
      (''pc_xiaoc3_weather/state'',
       Doc (JObj [(''temperature'', JNum (Fin 23.5)), (''humidity'', JNum (Fin 41.3)),
                  (''pressure'', JNum (Fin 1013.3))]), True)]"
proof -
  let ?s = "snd (setup_fn (boot_with False True))"
  let ?es = "[pass 7000 True (Fin 41.25) (Fin 23.5) (Fin 101325),
              pass 17000 True (Fin 41.25) (Fin 23.5) (Fin 101325)]"
  have h: "setup_fn (boot_with False True) = (Running, ?s)"
    by (rule setup_plain_eq)
  have "list_all harmless (trace ?s)"
    using fresh_plain [of True] by (simp add: fresh_def)
  then have pre: "filter accepted (trace ?s) = []"
    by (rule harmless_not_accepted)
  have "filter accepted (emitted (run ?es) ?s) =
      [Connect DEVICE_NAME MQTT_USER MQTT_PASSWORD
         (Some (MQTT_AVAILABILITY_TOPIC, 0, True, ''offline'')) True]"
    by (simp add: emitted_run_Cons emitted_run_Nil stage_emitted stage_fields plain_fields
        loop_def pass_def edge_block_def bmeDelay_def oledDelay_def mqttDelay_def)
  with pre have one: "length (filter accepted (trace (run ?es ?s))) = 1"
    by (simp add: trace_run del: run.simps)
  have w: "wire (run ?es ?s) =
     [(''pc_xiaoc3_weather/availability'', Raw ''online'', True),
      (''pc_xiaoc3_weather/state'',
       Doc (JObj [(''temperature'', JNum (Fin 23.5)), (''humidity'', JNum (Fin 41.3)),
                  (''pressure'', JNum (Fin 1013.3))]), True),
      (''pc_xiaoc3_weather/state'',
       Doc (JObj [(''temperature'', JNum (Fin 23.5)), (''humidity'', JNum (Fin 41.3)),
                  (''pressure'', JNum (Fin 1013.3))]), True)]"
    unfolding wire_two_passes [OF plain_wire(2)]
    by (simp add: plain_wire plain_fields stage_fields loop_def pass_def
        state_doc_def binary32 packet_size_def json_text
        bmeDelay_def oledDelay_def mqttDelay_def
        MQTT_STATE_TOPIC_def MQTT_AVAILABILITY_TOPIC_def)
  from discovery_not_received [OF h, of ?es] one h w show ?thesis
    by (simp del: run.simps)
qed

end
